theory Spec2Isabelle
  imports Main
begin

section \<open>Strings and paths\<close>

text \<open>
  The server (\<^verbatim>\<open>server.js\<close>) is glue around the file system, four converters and
  the HTTP framework.  Strings are \<^typ>\<open>string\<close> (byte characters), a buffer is a
  list of bytes, a path is a string with \<^verbatim>\<open>/\<close> as its separator.
\<close>

type_synonym path = string
type_synonym bytes = string

text \<open>
  Strings are sequences of bytes, the UTF-8 encoding of the JavaScript string.
  \<^verbatim>\<open>String.prototype.toLowerCase\<close> is modelled on the ASCII letters and leaves every
  other byte as it is.  The router compares the result with ASCII literals only, and no
  character outside ASCII lower-cases to a letter of these literals, so that every
  comparison in the handler comes out as in the program.
\<close>

definition lower_char :: "char \<Rightarrow> char" where
  "lower_char c =
     (case map_of (zip ''ABCDEFGHIJKLMNOPQRSTUVWXYZ'' ''abcdefghijklmnopqrstuvwxyz'') c of
        Some l \<Rightarrow> l
      | None \<Rightarrow> c)"

definition toLowerCase :: "string \<Rightarrow> string" where
  "toLowerCase s = map lower_char s"

text \<open>
  \<^verbatim>\<open>String.prototype.trim\<close> drops white space and line terminators at both ends:
  the six ASCII characters U+0009 to U+000D and U+0020, and U+00A0, U+1680, U+2000 to
  U+200A, U+2028, U+2029, U+202F, U+205F, U+3000 and U+FEFF, here in UTF-8.  An
  encoding starts with a byte that is no continuation byte, so that dropping encodings
  at the end of the byte sequence drops the same characters.
\<close>

definition white_space :: "string list" where
  "white_space =
     [[CHR 0x09], [CHR 0x0A], [CHR 0x0B], [CHR 0x0C], [CHR 0x0D], [CHR 0x20],
      [CHR 0xC2, CHR 0xA0],
      [CHR 0xE1, CHR 0x9A, CHR 0x80],
      [CHR 0xE2, CHR 0x80, CHR 0x80], [CHR 0xE2, CHR 0x80, CHR 0x81],
      [CHR 0xE2, CHR 0x80, CHR 0x82], [CHR 0xE2, CHR 0x80, CHR 0x83],
      [CHR 0xE2, CHR 0x80, CHR 0x84], [CHR 0xE2, CHR 0x80, CHR 0x85],
      [CHR 0xE2, CHR 0x80, CHR 0x86], [CHR 0xE2, CHR 0x80, CHR 0x87],
      [CHR 0xE2, CHR 0x80, CHR 0x88], [CHR 0xE2, CHR 0x80, CHR 0x89],
      [CHR 0xE2, CHR 0x80, CHR 0x8A],
      [CHR 0xE2, CHR 0x80, CHR 0xA8], [CHR 0xE2, CHR 0x80, CHR 0xA9],
      [CHR 0xE2, CHR 0x80, CHR 0xAF],
      [CHR 0xE2, CHR 0x81, CHR 0x9F],
      [CHR 0xE3, CHR 0x80, CHR 0x80],
      [CHR 0xEF, CHR 0xBB, CHR 0xBF]]"

fun trimStart :: "string \<Rightarrow> string" where
  "trimStart (a # b # c # s) =
     (if [a] \<in> set white_space then trimStart (b # c # s)
      else if [a, b] \<in> set white_space then trimStart (c # s)
      else if [a, b, c] \<in> set white_space then trimStart s
      else a # b # c # s)"
| "trimStart [a, b] =
     (if [a] \<in> set white_space then trimStart [b]
      else if [a, b] \<in> set white_space then []
      else [a, b])"
| "trimStart [a] = (if [a] \<in> set white_space then [] else [a])"
| "trimStart [] = []"

text \<open>\<open>trimEnd_rev\<close> works on the reversed string and returns it reversed.\<close>

fun trimEnd_rev :: "string \<Rightarrow> string" where
  "trimEnd_rev (a # b # c # s) =
     (if [a] \<in> set white_space then trimEnd_rev (b # c # s)
      else if [b, a] \<in> set white_space then trimEnd_rev (c # s)
      else if [c, b, a] \<in> set white_space then trimEnd_rev s
      else a # b # c # s)"
| "trimEnd_rev [a, b] =
     (if [a] \<in> set white_space then trimEnd_rev [b]
      else if [b, a] \<in> set white_space then []
      else [a, b])"
| "trimEnd_rev [a] = (if [a] \<in> set white_space then [] else [a])"
| "trimEnd_rev [] = []"

definition trim :: "string \<Rightarrow> string" where
  "trim s = rev (trimEnd_rev (rev (trimStart s)))"

text \<open>
  A non-negative number inside a template string (\<^verbatim>\<open>`${Date.now()}`\<close>) is printed
  in decimal.
\<close>

definition digit_char :: "nat \<Rightarrow> char" where
  "digit_char d = ''0123456789'' ! d"

fun dec :: "nat \<Rightarrow> string" where
  "dec n = (if n < 10 then [digit_char n] else dec (n div 10) @ [digit_char (n mod 10)])"

declare dec.simps [simp del]

text \<open>
  \<^verbatim>\<open>path.join(a, b)\<close>.  Every second argument in \<^verbatim>\<open>server.js\<close> is a single
  non-empty segment other than \<^verbatim>\<open>.\<close> and \<^verbatim>\<open>..\<close>, so that normalisation leaves
  the concatenation as it is.
\<close>

definition path_join :: "path \<Rightarrow> string \<Rightarrow> path" where
  "path_join a b = a @ ''/'' @ b"

text \<open>
  The last portion of a path, as \<^verbatim>\<open>path.basename\<close> and \<^verbatim>\<open>path.extname\<close> see it:
  trailing separators are ignored, then everything up to the last separator.
\<close>

definition last_part :: "path \<Rightarrow> string" where
  "last_part p =
     rev (takeWhile (\<lambda>c. c \<noteq> CHR ''/'') (dropWhile (\<lambda>c. c = CHR ''/'') (rev p)))"

text \<open>
  \<open>dot_end b\<close> is the number of characters of \<open>b\<close> up to and including its last
  dot, and \<open>0\<close> when \<open>b\<close> has no dot.
\<close>

definition dot_end :: "string \<Rightarrow> nat" where
  "dot_end b = length (dropWhile (\<lambda>c. c \<noteq> CHR ''.'') (rev b))"

text \<open>
  \<^verbatim>\<open>path.extname\<close>: from the last dot of the last portion to its end; empty when
  there is no dot, when the only dot is the first character, and for \<^verbatim>\<open>..\<close>.
\<close>

definition extname :: "path \<Rightarrow> string" where
  "extname p =
     (let b = last_part p; k = dot_end b
      in if k \<le> 1 \<or> b = ''..'' then [] else drop (k - 1) b)"

text \<open>
  \<^verbatim>\<open>path.basename(p, ext)\<close>: the last portion, without \<open>ext\<close> when it ends
  with it.  When the whole path is the suffix the result is empty; when only the last
  portion is, it is kept.
\<close>

definition basename :: "path \<Rightarrow> string \<Rightarrow> string" where
  "basename p ext =
     (let b = last_part p
      in if ext = [] \<or> length p < length ext then b
         else if ext = p then []
         else if length ext < length b \<and> drop (length b - length ext) b = ext
         then take (length b - length ext) b
         else b)"

section \<open>The file system\<close>

datatype node = File bytes | Dir

type_synonym filesys = "path \<Rightarrow> node option"

text \<open>\<open>under d q\<close>: the path \<open>q\<close> lies below the directory \<open>d\<close>.\<close>

definition under :: "path \<Rightarrow> path \<Rightarrow> bool" where
  "under d q = (length d < length q \<and> take (length d + 1) q = d @ ''/'')"


text \<open>
  A file system maps a path to what is stored there.  Only the nodes themselves are
  tracked: the directories above a path are taken to exist (\<^verbatim>\<open>ensureDirs\<close> creates
  \<^verbatim>\<open>uploads\<close> and \<^verbatim>\<open>outputs\<close> before the server listens).  The calls of
  \<^verbatim>\<open>fs-extra\<close> fail where the node kind forbids them; \<^verbatim>\<open>remove\<close> deletes a whole
  subtree, is silent on a missing path, and fails when the environment says so (see
  \<open>fs_remove\<close> below).
\<close>

datatype exec_failure = Spawn_ENOENT | Killed_by_timeout | Exit_code nat

datatype error =
    Thrown string
  | TypeError string
  | ThrownString string
  | FsError string path
  | ExecError exec_failure
  | LibError string
  | MulterError string string

text \<open>
  \<open>Thrown m\<close> is \<^verbatim>\<open>new Error(m)\<close> raised by \<^verbatim>\<open>server.js\<close> itself, \<open>TypeError\<close>
  is raised by the engine, and \<open>ThrownString\<close> is a string that a library throws
  in place of an error object: it has no \<^verbatim>\<open>message\<close>.  The other constructors are
  rejections that come from the file system, a child process, a library, and the upload
  middleware; their messages are given in short form.
\<close>

fun message :: "error \<Rightarrow> string option" where
  "message (Thrown m) = Some m"
| "message (TypeError m) = Some m"
| "message (ThrownString t) = None"
| "message (FsError c p) = Some (c @ '': '' @ p)"
| "message (ExecError Spawn_ENOENT) = Some ''spawn ENOENT''"
| "message (ExecError Killed_by_timeout) = Some ''Command failed (killed)''"
| "message (ExecError (Exit_code n)) = Some ''Command failed''"
| "message (LibError m) = Some m"
| "message (MulterError c m) = Some m"

definition pathExists :: "filesys \<Rightarrow> path \<Rightarrow> bool" where
  "pathExists f p = (f p \<noteq> None)"

definition ensureDir :: "filesys \<Rightarrow> path \<Rightarrow> error + filesys" where
  "ensureDir f p =
     (case f p of
        Some (File b) \<Rightarrow> Inl (FsError ''EEXIST'' p)
      | Some Dir \<Rightarrow> Inr f
      | None \<Rightarrow> Inr (f(p \<mapsto> Dir)))"

definition readFile :: "filesys \<Rightarrow> path \<Rightarrow> error + bytes" where
  "readFile f p =
     (case f p of
        Some (File b) \<Rightarrow> Inr b
      | Some Dir \<Rightarrow> Inl (FsError ''EISDIR'' p)
      | None \<Rightarrow> Inl (FsError ''ENOENT'' p))"

definition writeFile :: "filesys \<Rightarrow> path \<Rightarrow> bytes \<Rightarrow> error + filesys" where
  "writeFile f p b =
     (case f p of
        Some Dir \<Rightarrow> Inl (FsError ''EISDIR'' p)
      | _ \<Rightarrow> Inr (f(p \<mapsto> File b)))"

text \<open>The file system without the subtree at \<open>p\<close>: what a removal that succeeds leaves.\<close>

definition without :: "filesys \<Rightarrow> path \<Rightarrow> filesys" where
  "without f p = (\<lambda>q. if q = p \<or> under p q then None else f q)"

text \<open>\<^verbatim>\<open>fs.copy(src, dst)\<close>: the node at \<open>src\<close> and all below it appear at \<open>dst\<close>.\<close>

definition fs_copy :: "filesys \<Rightarrow> path \<Rightarrow> path \<Rightarrow> error + filesys" where
  "fs_copy f src dst =
     (case f src of
        None \<Rightarrow> Inl (FsError ''ENOENT'' src)
      | Some n \<Rightarrow>
          Inr (\<lambda>q. if q = dst then Some n
                   else if under dst q
                   then (case f (src @ drop (length dst) q) of
                           Some m \<Rightarrow> Some m
                         | None \<Rightarrow> f q)
                   else f q))"

text \<open>
  \<^verbatim>\<open>fs.move(src, dst, { overwrite: true })\<close>: what was at \<open>dst\<close> is replaced by the
  subtree of \<open>src\<close>, which disappears from its old place.
\<close>

definition fs_move :: "filesys \<Rightarrow> path \<Rightarrow> path \<Rightarrow> error + filesys" where
  "fs_move f src dst =
     (case f src of
        None \<Rightarrow> Inl (FsError ''ENOENT'' src)
      | Some n \<Rightarrow>
          if under src dst then Inl (FsError ''EINVAL'' dst)
          else Inr (\<lambda>q. if q = dst then Some n
                        else if under dst q then f (src @ drop (length dst) q)
                        else if q = src \<or> under src q then None
                        else f q))"

section \<open>The environment of the server\<close>

datatype opname = OfficeToPdf | PdfToJpg | PdfToDocx | ImageToPdf

text \<open>The options object handed to \<^verbatim>\<open>pdf-poppler\<close>: format, out_dir, out_prefix, page.\<close>

datatype poppler_opts = Poppler_opts string path string nat

text \<open>
  The log of a run: which conversion operation the route handler called, and every
  call that left the process (child processes, the converter libraries).  The log is
  not in the source; it records the calls the source makes, in their order.
\<close>

datatype call =
    Operation opname path path
  | ExecFile string "string list" "nat option"
  | PopplerConvert path poppler_opts
  | LibreConvert string
  | EmbedPng
  | EmbedJpg

record state =
  files :: filesys
  calls :: "call list"

definition log_call :: "call \<Rightarrow> state \<Rightarrow> state" where
  "log_call c s = s\<lparr>calls := calls s @ [c]\<rparr>"

text \<open>The documents of \<^verbatim>\<open>pdf-lib\<close>, as far as \<^verbatim>\<open>imageToPdf\<close> builds them.\<close>

datatype codec = Png | Jpeg

datatype pdf_image = Pdf_image codec nat nat bytes

fun image_width :: "pdf_image \<Rightarrow> nat" where
  "image_width (Pdf_image c w h b) = w"

fun image_height :: "pdf_image \<Rightarrow> nat" where
  "image_height (Pdf_image c w h b) = h"

text \<open>\<open>DrawImage image x y width height\<close>, and a page with its size and drawings.\<close>

datatype drawing = DrawImage pdf_image nat nat nat nat

datatype pdf_page = Page nat nat "drawing list"

record pdf_document =
  embedded :: "pdf_image list"
  pages :: "pdf_page list"

text \<open>The JavaScript values that a port takes: a number or a string.\<close>

datatype jsval = Num int | Str string

datatype listen_outcome = Listening | Error_event string | Listen_throws string

text \<open>
  Everything outside \<^verbatim>\<open>server.js\<close> is a parameter: the directory of the script,
  \<^verbatim>\<open>process.platform\<close> and \<^verbatim>\<open>process.env\<close>, the converter of \<^verbatim>\<open>pdf-poppler\<close>
  (\<open>None\<close> when the module did not load or has no \<^verbatim>\<open>convert\<close>), child processes
  (command, arguments, timeout in milliseconds, environment; the result is an optional
  failure and the file system the process leaves), \<^verbatim>\<open>libreoffice-convert\<close>, the image
  decoders and the serialiser of \<^verbatim>\<open>pdf-lib\<close>, and what \<^verbatim>\<open>app.listen\<close> does on a port.
  A library that rejects gives the message of its error.  \<open>remove_failure p f\<close>
  says whether removing \<open>p\<close> from \<open>f\<close> fails (permissions, a busy file), and
  if it does, which paths of the subtree are still there.
\<close>

record world =
  dirname :: path
  platform :: string
  env :: "string \<Rightarrow> string option"
  pdfConvertPoppler ::
    "(path \<Rightarrow> poppler_opts \<Rightarrow> filesys \<Rightarrow> string option \<times> filesys) option"
  execFile ::
    "string \<Rightarrow> string list \<Rightarrow> nat option \<Rightarrow> (string \<Rightarrow> string option) option
       \<Rightarrow> filesys \<Rightarrow> exec_failure option \<times> filesys"
  libreConvert :: "bytes \<Rightarrow> string \<Rightarrow> string + bytes"
  png_decode :: "bytes \<Rightarrow> (nat \<times> nat) option"
  jpg_decode :: "bytes \<Rightarrow> (nat \<times> nat) option"
  pdf_save :: "pdf_document \<Rightarrow> bytes"
  listen :: "jsval \<Rightarrow> listen_outcome"
  remove_failure :: "path \<Rightarrow> filesys \<Rightarrow> (path \<Rightarrow> bool) option"

definition isLinux :: "world \<Rightarrow> bool" where
  "isLinux w = (platform w = ''linux'')"

definition UPLOADS_DIR :: "world \<Rightarrow> path" where
  "UPLOADS_DIR w = path_join (dirname w) ''uploads''"

definition OUTPUTS_DIR :: "world \<Rightarrow> path" where
  "OUTPUTS_DIR w = path_join (dirname w) ''outputs''"

text \<open>\<^verbatim>\<open>process.env[k] || d\<close>: an unset and an empty variable both give the default.\<close>

definition env_or :: "world \<Rightarrow> string \<Rightarrow> string \<Rightarrow> string" where
  "env_or w k d = (case env w k of None \<Rightarrow> d | Some v \<Rightarrow> if v = [] then d else v)"

text \<open>
  \<^verbatim>\<open>fs.remove(p)\<close>: the subtree at \<open>p\<close> is deleted, or the call rejects and leaves the
  part of the subtree that could not be deleted.
\<close>

definition fs_remove :: "world \<Rightarrow> filesys \<Rightarrow> path \<Rightarrow> error option \<times> filesys" where
  "fs_remove w f p =
     (case remove_failure w p f of
        None \<Rightarrow> (None, without f p)
      | Some keep \<Rightarrow>
          (Some (FsError ''EPERM'' p),
           (\<lambda>q. if (q = p \<or> under p q) \<and> \<not> keep q then None else f q)))"

definition execFileAsync ::
  "world \<Rightarrow> string \<Rightarrow> string list \<Rightarrow> nat option \<Rightarrow> (string \<Rightarrow> string option) option
     \<Rightarrow> state \<Rightarrow> exec_failure option \<times> state" where
  "execFileAsync w cmd args timeout_ms e s =
     (case execFile w cmd args timeout_ms e (files s) of
        (r, f) \<Rightarrow> (r, \<lparr>files = f, calls = calls s @ [ExecFile cmd args timeout_ms]\<rparr>))"

section \<open>Conversion operations\<close>

text \<open>
  Every operation takes the state and returns its result together with the state it
  leaves, also when it fails: \<open>Inl\<close> is the rejection of the \<^verbatim>\<open>async\<close> function.
\<close>

text \<open>\<^verbatim>\<open>officeToPdf(inputPath, outputPath)\<close>\<close>

definition officeToPdf :: "world \<Rightarrow> path \<Rightarrow> path \<Rightarrow> state \<Rightarrow> (error + unit) \<times> state" where
  "officeToPdf w inputPath outputPath s =
     (let ext = toLowerCase (extname inputPath);
          allowed = [''.docx'', ''.pptx'', ''.xlsx'']
      in if ext \<notin> set allowed then (Inl (Thrown (''Unsupported office format: '' @ ext)), s)
         else case readFile (files s) inputPath of
                Inl e \<Rightarrow> (Inl e, s)
              | Inr buf \<Rightarrow>
                  (let s1 = log_call (LibreConvert ''.pdf'') s
                   in case libreConvert w buf ''.pdf'' of
                        Inl m \<Rightarrow> (Inl (LibError m), s1)
                      | Inr pdfBuffer \<Rightarrow>
                          (case writeFile (files s1) outputPath pdfBuffer of
                             Inl e \<Rightarrow> (Inl e, s1)
                           | Inr f \<Rightarrow> (Inr (), s1\<lparr>files := f\<rparr>))))"

text \<open>
  \<^verbatim>\<open>pdfToJpg(inputPath, outputDir)\<close>.  The check of the first page is the same two
  lines in both branches of the source.
\<close>

definition first_page_check :: "path \<Rightarrow> state \<Rightarrow> (error + path) \<times> state" where
  "first_page_check outputDir s =
     (let firstPage = path_join outputDir ''page-1.jpg''
      in if \<not> pathExists (files s) firstPage
         then (Inl (Thrown ''PDF to JPG conversion produced no output.''), s)
         else (Inr firstPage, s))"

definition pdfToJpg :: "world \<Rightarrow> path \<Rightarrow> path \<Rightarrow> state \<Rightarrow> (error + path) \<times> state" where
  "pdfToJpg w inputPath outputDir s =
     (case ensureDir (files s) outputDir of
        Inl e \<Rightarrow> (Inl e, s)
      | Inr f0 \<Rightarrow>
          (let s0 = s\<lparr>files := f0\<rparr>;
               prefix = path_join outputDir ''page''
           in if isLinux w then
                (case execFileAsync w ''pdftoppm''
                        [''-jpeg'', ''-f'', ''1'', ''-l'', ''1'', inputPath, prefix] None None s0 of
                   (Some x, s1) \<Rightarrow> (Inl (ExecError x), s1)
                 | (None, s1) \<Rightarrow> first_page_check outputDir s1)
              else case pdfConvertPoppler w of
                Some convert \<Rightarrow>
                  (let opts = Poppler_opts ''jpeg'' outputDir ''page'' 1;
                       s1 = log_call (PopplerConvert inputPath opts) s0
                   in case convert inputPath opts (files s1) of
                        (Some m, f1) \<Rightarrow> (Inl (LibError m), s1\<lparr>files := f1\<rparr>)
                      | (None, f1) \<Rightarrow> first_page_check outputDir (s1\<lparr>files := f1\<rparr>))
              | None \<Rightarrow>
                  (Inl (Thrown (''PDF to JPG not available on this system. ''
                         @ ''Install poppler-utils (Linux) or use Windows/Mac.'')), s0)))"

text \<open>
  \<^verbatim>\<open>getLibreOfficeCommand()\<close>.  On \<^verbatim>\<open>win32\<close> the candidates are joined with a
  backslash.
\<close>

definition win_join :: "string list \<Rightarrow> string" where
  "win_join xs = foldr (\<lambda>a b. if b = [] then a else a @ [CHR 0x5C] @ b) xs []"

definition getLibreOfficeCommand :: "world \<Rightarrow> filesys \<Rightarrow> string" where
  "getLibreOfficeCommand w f =
     (if platform w = ''win32'' then
        (let prog = env_or w ''PROGRAMFILES'' (''C:'' @ [CHR 0x5C] @ ''Program Files'');
             prog86 = env_or w ''ProgramFiles(x86)'' (''C:'' @ [CHR 0x5C] @ ''Program Files (x86)'');
             candidates =
               [win_join [prog, ''LibreOffice'', ''program'', ''soffice.exe''],
                win_join [prog86, ''LibreOffice'', ''program'', ''soffice.exe'']]
         in case filter (pathExists f) candidates of
              p # _ \<Rightarrow> p
            | [] \<Rightarrow> ''soffice'')
      else ''libreoffice'')"

text \<open>
  \<^verbatim>\<open>pdfToDocx(inputPath, outputDir)\<close>; \<open>now\<close> is what \<^verbatim>\<open>Date.now()\<close> returns when
  the temporary directory is named.  \<open>pdfToDocx_try\<close> is the body of the
  \<^verbatim>\<open>try\<close> block, and \<open>pdfToDocx\<close> runs the \<^verbatim>\<open>finally\<close> block after it, where
  \<^verbatim>\<open>.catch(() => {})\<close> drops the error of a removal that fails.
\<close>

definition pdfToDocx_try ::
  "world \<Rightarrow> path \<Rightarrow> path \<Rightarrow> path \<Rightarrow> state \<Rightarrow> (error + path) \<times> state" where
  "pdfToDocx_try w inputPath outputDir tempDir s =
     (let baseName = basename inputPath (extname inputPath);
          tempPdf = path_join tempDir ''in.pdf'';
          tempDocx = path_join tempDir ''in.docx'';
          env' = (env w)(''PYTHONHOME'' := None, ''PYTHONPATH'' := None)
      in case fs_copy (files s) inputPath tempPdf of
           Inl e \<Rightarrow> (Inl e, s)
         | Inr f1 \<Rightarrow>
             (let s1 = s\<lparr>files := f1\<rparr>;
                  liboCmd = getLibreOfficeCommand w (files s1)
              in case execFileAsync w liboCmd
                        [''--headless'', ''--infilter=writer_pdf_import'',
                         ''--convert-to'', ''docx'', ''--outdir'', tempDir, tempPdf]
                        (Some 60000) (Some env') s1 of
                   (Some x, s2) \<Rightarrow> (Inl (ExecError x), s2)
                 | (None, s2) \<Rightarrow>
                     if \<not> pathExists (files s2) tempDocx
                     then (Inl (Thrown ''PDF to DOCX produced no output. Is LibreOffice installed?''),
                           s2)
                     else (let docxPath = path_join outputDir (baseName @ ''.docx'')
                           in case fs_move (files s2) tempDocx docxPath of
                                Inl e \<Rightarrow> (Inl e, s2)
                              | Inr f3 \<Rightarrow> (Inr docxPath, s2\<lparr>files := f3\<rparr>))))"

definition pdfToDocx ::
  "world \<Rightarrow> path \<Rightarrow> path \<Rightarrow> nat \<Rightarrow> state \<Rightarrow> (error + path) \<times> state" where
  "pdfToDocx w inputPath outputDir now s =
     (case ensureDir (files s) outputDir of
        Inl e \<Rightarrow> (Inl e, s)
      | Inr f0 \<Rightarrow>
          (let tempDir = path_join (OUTPUTS_DIR w) (''lo_'' @ dec now)
           in case ensureDir f0 tempDir of
                Inl e \<Rightarrow> (Inl e, s\<lparr>files := f0\<rparr>)
              | Inr f1 \<Rightarrow>
                  (case pdfToDocx_try w inputPath outputDir tempDir (s\<lparr>files := f1\<rparr>) of
                     (r, s') \<Rightarrow> (r, s'\<lparr>files := snd (fs_remove w (files s') tempDir)\<rparr>))))"

text \<open>
  \<^verbatim>\<open>imageToPdf(inputPath, outputPath)\<close>, with the calls of \<^verbatim>\<open>pdf-lib\<close> it makes.
  The PNG decoder of the library throws a string on bytes that are no PNG, the JPEG
  embedder an error object.
\<close>

definition PDFDocument_create :: pdf_document where
  "PDFDocument_create = \<lparr>embedded = [], pages = []\<rparr>"

definition embedPng ::
  "world \<Rightarrow> pdf_document \<Rightarrow> bytes \<Rightarrow> state \<Rightarrow> (error + pdf_image \<times> pdf_document) \<times> state" where
  "embedPng w doc b s =
     (case png_decode w b of
        None \<Rightarrow> (Inl (ThrownString ''The input is not a PNG file!''), log_call EmbedPng s)
      | Some (wd, ht) \<Rightarrow>
          (Inr (Pdf_image Png wd ht b, doc\<lparr>embedded := embedded doc @ [Pdf_image Png wd ht b]\<rparr>),
           log_call EmbedPng s))"

definition embedJpg ::
  "world \<Rightarrow> pdf_document \<Rightarrow> bytes \<Rightarrow> state \<Rightarrow> (error + pdf_image \<times> pdf_document) \<times> state" where
  "embedJpg w doc b s =
     (case jpg_decode w b of
        None \<Rightarrow> (Inl (LibError ''SOI not found in JPEG''), log_call EmbedJpg s)
      | Some (wd, ht) \<Rightarrow>
          (Inr (Pdf_image Jpeg wd ht b, doc\<lparr>embedded := embedded doc @ [Pdf_image Jpeg wd ht b]\<rparr>),
           log_call EmbedJpg s))"

text \<open>\<^verbatim>\<open>doc.addPage([width, height])\<close> returns the new page, here its index.\<close>

definition addPage :: "pdf_document \<Rightarrow> nat \<Rightarrow> nat \<Rightarrow> nat \<times> pdf_document" where
  "addPage doc wd ht = (length (pages doc), doc\<lparr>pages := pages doc @ [Page wd ht []]\<rparr>)"

fun draw_on :: "drawing \<Rightarrow> pdf_page \<Rightarrow> pdf_page" where
  "draw_on d (Page wd ht ds) = Page wd ht (ds @ [d])"

definition drawImage :: "pdf_document \<Rightarrow> nat \<Rightarrow> drawing \<Rightarrow> pdf_document" where
  "drawImage doc i d = doc\<lparr>pages := (pages doc)[i := draw_on d (pages doc ! i)]\<rparr>"

definition imageToPdf :: "world \<Rightarrow> path \<Rightarrow> path \<Rightarrow> state \<Rightarrow> (error + unit) \<times> state" where
  "imageToPdf w inputPath outputPath s =
     (let ext = toLowerCase (extname inputPath)
      in case readFile (files s) inputPath of
           Inl e \<Rightarrow> (Inl e, s)
         | Inr imageBytes \<Rightarrow>
             (let doc = PDFDocument_create
              in case (if ext = ''.png'' then embedPng w doc imageBytes s
                       else embedJpg w doc imageBytes s) of
                   (Inl e, s1) \<Rightarrow> (Inl e, s1)
                 | (Inr (img, doc1), s1) \<Rightarrow>
                     (let width = image_width img;
                          height = image_height img;
                          (page, doc2) = addPage doc1 width height;
                          doc3 = drawImage doc2 page (DrawImage img 0 0 width height);
                          pdfBytes = pdf_save w doc3
                      in case writeFile (files s1) outputPath pdfBytes of
                           Inl e \<Rightarrow> (Inl e, s1)
                         | Inr f \<Rightarrow> (Inr (), s1\<lparr>files := f\<rparr>))))"

section \<open>Upload intake\<close>

text \<open>
  A multipart request carries at most one part named \<^verbatim>\<open>file\<close> (original name, MIME
  type, content) and any number of text fields named \<^verbatim>\<open>targetFormat\<close>, listed in
  their order.  \<^verbatim>\<open>upload.single('file')\<close> turns it into the request that the route
  handler sees, where \<^verbatim>\<open>req.file\<close> has \<^verbatim>\<open>originalname\<close>, \<^verbatim>\<open>mimetype\<close>,
  \<^verbatim>\<open>path\<close> and \<^verbatim>\<open>size\<close>, and \<^verbatim>\<open>req.body.targetFormat\<close> is undefined without
  such a field, a string for one field, and an array of strings for a repeated field.
\<close>

datatype file_part = File_part string string bytes

datatype body_field = Undefined | Text string | Array "string list"

fun body_of_fields :: "string list \<Rightarrow> body_field" where
  "body_of_fields [] = Undefined"
| "body_of_fields [t] = Text t"
| "body_of_fields ts = Array ts"

record multipart =
  file_field :: "file_part option"
  targetFormat_fields :: "string list"

record multer_file =
  originalname :: string
  mimetype :: string
  file_path :: path
  file_size :: nat

record request =
  req_file :: "multer_file option"
  body_targetFormat :: body_field

definition allowed_mimetypes :: "string list" where
  "allowed_mimetypes =
     [''application/vnd.openxmlformats-officedocument.wordprocessingml.document'',
      ''application/vnd.openxmlformats-officedocument.presentationml.presentation'',
      ''application/vnd.openxmlformats-officedocument.spreadsheetml.sheet'',
      ''application/pdf'',
      ''image/jpeg'',
      ''image/png'']"

definition fileFilter :: "string \<Rightarrow> error + bool" where
  "fileFilter mt =
     (if mt \<in> set allowed_mimetypes then Inr True
      else Inl (Thrown ''File type not supported. Use DOCX, PPTX, XLSX, PDF, JPG, or PNG.''))"

definition fileSize_limit :: nat where
  "fileSize_limit = 20 * 1024 * 1024"

text \<open>The \<^verbatim>\<open>filename\<close> function of the disk storage; \<open>now\<close> is \<^verbatim>\<open>Date.now()\<close>.\<close>

definition storage_filename :: "string \<Rightarrow> nat \<Rightarrow> string" where
  "storage_filename name now =
     (let ext = extname name;
          base = basename name ext
      in base @ ''-'' @ dec now @ ext)"

text \<open>
  The middleware either hands an error to \<^verbatim>\<open>next\<close> (\<open>Inl\<close>: the filter refused the
  type, or the content is longer than the limit, and nothing stays on disk), or stores
  the file under \<^verbatim>\<open>uploads\<close> and lets the request through.
\<close>

definition upload_single ::
  "world \<Rightarrow> multipart \<Rightarrow> nat \<Rightarrow> state \<Rightarrow> error + request \<times> state" where
  "upload_single w mp now s =
     (case file_field mp of
        None \<Rightarrow>
          Inr (\<lparr>req_file = None,
                body_targetFormat = body_of_fields (targetFormat_fields mp)\<rparr>, s)
      | Some (File_part name mt content) \<Rightarrow>
          (case fileFilter mt of
             Inl e \<Rightarrow> Inl e
           | Inr _ \<Rightarrow>
               if fileSize_limit < length content
               then Inl (MulterError ''LIMIT_FILE_SIZE'' ''File too large'')
               else (let p = path_join (UPLOADS_DIR w) (storage_filename name now)
                     in Inr (\<lparr>req_file = Some \<lparr>originalname = name, mimetype = mt,
                                                  file_path = p, file_size = length content\<rparr>,
                              body_targetFormat = body_of_fields (targetFormat_fields mp)\<rparr>,
                             s\<lparr>files := (files s)(p \<mapsto> File content)\<rparr>))))"

section \<open>The route \<^verbatim>\<open>POST /convert\<close>\<close>

datatype body = Json_error string | Attachment string bytes | Html_error string

datatype response = Response nat body | No_response

text \<open>
  What the chain of \<^verbatim>\<open>if\<close>s in the handler did: no branch matched, or a conversion
  ran, with its error if it threw, and the values that \<^verbatim>\<open>outputPath\<close> and
  \<^verbatim>\<open>outputDirForPdf\<close> hold at that moment.
\<close>

datatype routed = Unsupported | Ran "error option" "path option" "path option"

definition route ::
  "world \<Rightarrow> path \<Rightarrow> string \<Rightarrow> string \<Rightarrow> path \<Rightarrow> nat \<Rightarrow> state \<Rightarrow> routed \<times> state" where
  "route w uploadPath ext targetFormat outBase now_tmp s =
     (if ext \<in> set [''.docx'', ''.pptx'', ''.xlsx''] \<and> targetFormat = ''pdf'' then
        (let outputPath = outBase @ ''.pdf''
         in case officeToPdf w uploadPath outputPath
                   (log_call (Operation OfficeToPdf uploadPath outputPath) s) of
              (Inl e, s1) \<Rightarrow> (Ran (Some e) (Some outputPath) None, s1)
            | (Inr _, s1) \<Rightarrow> (Ran None (Some outputPath) None, s1))
      else if ext = ''.pdf'' \<and> targetFormat = ''jpg'' then
        (let outputDirForPdf = outBase @ ''-pages''
         in case ensureDir (files s) outputDirForPdf of
              Inl e \<Rightarrow> (Ran (Some e) None (Some outputDirForPdf), s)
            | Inr f \<Rightarrow>
                (case pdfToJpg w uploadPath outputDirForPdf
                        (log_call (Operation PdfToJpg uploadPath outputDirForPdf)
                           (s\<lparr>files := f\<rparr>)) of
                   (Inl e, s1) \<Rightarrow> (Ran (Some e) None (Some outputDirForPdf), s1)
                 | (Inr firstPagePath, s1) \<Rightarrow>
                     (Ran None (Some firstPagePath) (Some outputDirForPdf), s1)))
      else if ext = ''.pdf'' \<and> targetFormat = ''docx'' then
        (let outputDirForPdf = outBase @ ''-docx''
         in case pdfToDocx w uploadPath outputDirForPdf now_tmp
                   (log_call (Operation PdfToDocx uploadPath outputDirForPdf) s) of
              (Inl e, s1) \<Rightarrow> (Ran (Some e) None (Some outputDirForPdf), s1)
            | (Inr docxPath, s1) \<Rightarrow> (Ran None (Some docxPath) (Some outputDirForPdf), s1))
      else if ext \<in> set [''.jpg'', ''.jpeg'', ''.png''] \<and> targetFormat = ''pdf'' then
        (let outputPath = outBase @ ''.pdf''
         in case imageToPdf w uploadPath outputPath
                   (log_call (Operation ImageToPdf uploadPath outputPath) s) of
              (Inl e, s1) \<Rightarrow> (Ran (Some e) (Some outputPath) None, s1)
            | (Inr _, s1) \<Rightarrow> (Ran None (Some outputPath) None, s1))
      else (Unsupported, s))"

text \<open>
  The three lines of clean-up, the same after the download and in the \<^verbatim>\<open>catch\<close>
  block.  A variable that is still \<^verbatim>\<open>null\<close> is skipped.  The lines stand in one
  \<^verbatim>\<open>try\<close>: a removal that fails ends the clean-up, and its error is only logged.
\<close>

definition remove_if_set :: "world \<Rightarrow> path option \<Rightarrow> filesys \<Rightarrow> error option \<times> filesys" where
  "remove_if_set w v f =
     (case v of
        None \<Rightarrow> (None, f)
      | Some p \<Rightarrow> if pathExists f p then fs_remove w f p else (None, f))"

definition cleanup ::
  "world \<Rightarrow> path option \<Rightarrow> path option \<Rightarrow> path option \<Rightarrow> filesys \<Rightarrow> filesys" where
  "cleanup w uploadPath outputPath outputDirForPdf f =
     (case remove_if_set w uploadPath f of
        (Some e, f1) \<Rightarrow> f1
      | (None, f1) \<Rightarrow>
          (case remove_if_set w outputPath f1 of
             (Some e, f2) \<Rightarrow> f2
           | (None, f2) \<Rightarrow> snd (remove_if_set w outputDirForPdf f2)))"

text \<open>
  \<^verbatim>\<open>res.download(outputPath, filename, callback)\<close>: the file is sent as an attachment;
  when it cannot be read the callback gets the error and no response is written.
\<close>

definition download :: "filesys \<Rightarrow> path option \<Rightarrow> response" where
  "download f outputPath =
     (case outputPath of
        None \<Rightarrow> No_response
      | Some p \<Rightarrow>
          (case readFile f p of
             Inr b \<Rightarrow> Response 200 (Attachment (basename p []) b)
           | Inl e \<Rightarrow> No_response))"

text \<open>\<^verbatim>\<open>err.message || 'Conversion failed.'\<close>\<close>

definition failure_body :: "error \<Rightarrow> string" where
  "failure_body err =
     (case message err of
        None \<Rightarrow> ''Conversion failed.''
      | Some m \<Rightarrow> if m = [] then ''Conversion failed.'' else m)"

text \<open>
  The \<^verbatim>\<open>catch\<close> block, with the values that \<^verbatim>\<open>uploadPath\<close>, \<^verbatim>\<open>outputPath\<close> and
  \<^verbatim>\<open>outputDirForPdf\<close> hold when the error is caught.
\<close>

definition catch_block ::
  "world \<Rightarrow> error \<Rightarrow> path option \<Rightarrow> path option \<Rightarrow> path option \<Rightarrow> state
     \<Rightarrow> response \<times> state" where
  "catch_block w err uploadPath outputPath outputDirForPdf s =
     (Response 500 (Json_error (failure_body err)),
      s\<lparr>files := cleanup w uploadPath outputPath outputDirForPdf (files s)\<rparr>)"

text \<open>
  The end of the handler, after the chain of \<^verbatim>\<open>if\<close>s: the answer 400 of the last
  branch (which returns without any clean-up), the download with its clean-up in the
  callback, or the \<^verbatim>\<open>catch\<close> block.  The arrow in the message of the last branch is
  the three bytes of its UTF-8 encoding.
\<close>

definition finish ::
  "world \<Rightarrow> path \<Rightarrow> string \<Rightarrow> string \<Rightarrow> routed \<times> state \<Rightarrow> response \<times> state" where
  "finish w uploadPath ext targetFormat rs =
     (case rs of
        (Unsupported, s1) \<Rightarrow>
          (Response 400 (Json_error
             (''Unsupported conversion: '' @ ext @ '' ''
              @ [CHR 0xE2, CHR 0x86, CHR 0x92] @ '' '' @ targetFormat
              @ ''. Supported: DOCX/PPTX/XLSX'' @ [CHR 0xE2, CHR 0x86, CHR 0x92]
              @ ''PDF, PDF'' @ [CHR 0xE2, CHR 0x86, CHR 0x92]
              @ ''JPG/DOCX, JPG/PNG'' @ [CHR 0xE2, CHR 0x86, CHR 0x92] @ ''PDF.'')),
           s1)
      | (Ran None outputPath outputDirForPdf, s1) \<Rightarrow>
          (download (files s1) outputPath,
           s1\<lparr>files := cleanup w (Some uploadPath) outputPath outputDirForPdf (files s1)\<rparr>)
      | (Ran (Some err) outputPath outputDirForPdf, s1) \<Rightarrow>
          catch_block w err (Some uploadPath) outputPath outputDirForPdf s1)"

text \<open>
  The handler.  \<open>now_out\<close> and \<open>now_tmp\<close> are the readings of \<^verbatim>\<open>Date.now()\<close> for
  \<^verbatim>\<open>outBase\<close> and for the temporary directory of \<^verbatim>\<open>pdfToDocx\<close>.  On an array,
  \<^verbatim>\<open>toLowerCase\<close> is no function: line 177 throws while \<^verbatim>\<open>uploadPath\<close> is still
  \<^verbatim>\<open>null\<close>.  The text of that error is the one the engine gives.
\<close>

definition not_a_function :: error where
  "not_a_function =
     TypeError (''(req.body.targetFormat || '' @ [CHR 0x22, CHR 0x22]
                @ '').toLowerCase is not a function'')"

definition convert_handler ::
  "world \<Rightarrow> request \<Rightarrow> nat \<Rightarrow> nat \<Rightarrow> state \<Rightarrow> response \<times> state" where
  "convert_handler w req now_out now_tmp s =
     (case req_file req of
        None \<Rightarrow> (Response 400 (Json_error ''No file uploaded.''), s)
      | Some fl \<Rightarrow>
          (case body_targetFormat req of
             Array ts \<Rightarrow>
               catch_block w not_a_function None None None s
           | field \<Rightarrow>
               (let targetFormat =
                      trim (toLowerCase (case field of Text t \<Rightarrow> t | _ \<Rightarrow> []))
                in if targetFormat = []
                   then (Response 400
                           (Json_error ''targetFormat is required (pdf, jpg, or docx).''), s)
                   else
                     (let uploadPath = file_path fl;
                          ext = toLowerCase (extname (originalname fl));
                          baseName = basename (originalname fl) ext;
                          outBase = path_join (OUTPUTS_DIR w) (baseName @ ''-'' @ dec now_out)
                      in finish w uploadPath ext targetFormat
                           (route w uploadPath ext targetFormat outBase now_tmp s)))))"

text \<open>
  \<^verbatim>\<open>server.js\<close> registers no error-handling middleware, so an error that the upload
  middleware hands to \<^verbatim>\<open>next\<close> reaches the default handler of the framework: none
  of the errors above carries a status, and the answer is 500 with an HTML page.
\<close>

definition default_error_handler :: "error \<Rightarrow> response" where
  "default_error_handler e =
     Response 500 (Html_error (case message e of None \<Rightarrow> [] | Some m \<Rightarrow> m))"

definition post_convert ::
  "world \<Rightarrow> multipart \<Rightarrow> nat \<Rightarrow> nat \<Rightarrow> nat \<Rightarrow> state \<Rightarrow> response \<times> state" where
  "post_convert w mp now_up now_out now_tmp s =
     (case upload_single w mp now_up s of
        Inl e \<Rightarrow> (default_error_handler e, s)
      | Inr (req, s1) \<Rightarrow> convert_handler w req now_out now_tmp s1)"

section \<open>Start-up\<close>

text \<open>\<^verbatim>\<open>const PORT = process.env.PORT || 3000\<close>: a string when the variable is set.\<close>

definition PORT :: "world \<Rightarrow> jsval" where
  "PORT w = (case env w ''PORT'' of None \<Rightarrow> Num 3000 | Some v \<Rightarrow> if v = [] then Num 3000 else Str v)"

text \<open>\<open>x + k\<close> for a number literal \<open>k\<close>: addition on a number, concatenation on a string.\<close>

fun js_plus :: "jsval \<Rightarrow> nat \<Rightarrow> jsval" where
  "js_plus (Num n) k = Num (n + int k)"
| "js_plus (Str t) k = Str (t @ dec k)"

text \<open>
  \<open>x < y\<close>: numeric on numbers, by code unit on two strings.  \<^verbatim>\<open>tryListen\<close> only
  compares values of the same kind; of the mixed comparisons, those with a string of
  decimal digits are numeric, and the others are taken as comparisons with \<^verbatim>\<open>NaN\<close>.
\<close>

fun str_less :: "string \<Rightarrow> string \<Rightarrow> bool" where
  "str_less [] [] = False"
| "str_less [] (y # ys) = True"
| "str_less (x # xs) [] = False"
| "str_less (x # xs) (y # ys) =
     (if x = y then str_less xs ys else (of_char x :: nat) < of_char y)"

definition digit_value :: "char \<Rightarrow> nat option" where
  "digit_value c = map_of (zip ''0123456789'' [0, 1, 2, 3, 4, 5, 6, 7, 8, 9]) c"

fun to_number :: "string \<Rightarrow> nat \<Rightarrow> nat option" where
  "to_number [] acc = Some acc"
| "to_number (c # cs) acc =
     (case digit_value c of None \<Rightarrow> None | Some d \<Rightarrow> to_number cs (10 * acc + d))"

fun js_less :: "jsval \<Rightarrow> jsval \<Rightarrow> bool" where
  "js_less (Num a) (Num b) = (a < b)"
| "js_less (Str a) (Str b) = str_less a b"
| "js_less (Num a) (Str b) = (case to_number b 0 of None \<Rightarrow> False | Some n \<Rightarrow> a < int n)"
| "js_less (Str a) (Num b) = (case to_number a 0 of None \<Rightarrow> False | Some n \<Rightarrow> int n < b)"

datatype listen_result = Resolved | Rejected string

text \<open>
  \<^verbatim>\<open>tryListen(p)\<close>, a closure over \<^verbatim>\<open>PORT\<close> and \<^verbatim>\<open>maxTries\<close>.  The second
  component of the result lists the ports on which \<^verbatim>\<open>app.listen\<close> was called, in
  order.  The recursion has no bound of its own, so the function is partial: \<open>None\<close>
  is a promise that never settles.
\<close>

partial_function (option) tryListen ::
  "world \<Rightarrow> nat \<Rightarrow> jsval \<Rightarrow> jsval list \<Rightarrow> (listen_result \<times> jsval list) option" where
  "tryListen w maxTries p tried =
     (case listen w p of
        Listening \<Rightarrow> Some (Resolved, tried @ [p])
      | Listen_throws m \<Rightarrow> Some (Rejected m, tried @ [p])
      | Error_event code \<Rightarrow>
          if code = ''EADDRINUSE'' \<and> js_less p (js_plus (PORT w) maxTries)
          then tryListen w maxTries (js_plus p 1) (tried @ [p])
          else Some (Rejected code, tried @ [p]))"

definition ensureDirs :: "world \<Rightarrow> filesys \<Rightarrow> error + filesys" where
  "ensureDirs w f =
     (case ensureDir f (UPLOADS_DIR w) of
        Inl e \<Rightarrow> Inl e
      | Inr f1 \<Rightarrow> ensureDir f1 (OUTPUTS_DIR w))"

text \<open>
  \<^verbatim>\<open>start()\<close> with its \<^verbatim>\<open>catch\<close>: the server ends up listening on the last port
  tried, or the process exits with code 1.
\<close>

datatype start_outcome = Serving | Process_exit nat

definition start :: "world \<Rightarrow> filesys \<Rightarrow> (start_outcome \<times> jsval list) option" where
  "start w f =
     (case ensureDirs w f of
        Inl e \<Rightarrow> Some (Process_exit 1, [])
      | Inr f1 \<Rightarrow>
          (let maxTries = 5; port = PORT w
           in case tryListen w maxTries port [] of
                None \<Rightarrow> None
              | Some (Resolved, tried) \<Rightarrow> Some (Serving, tried)
              | Some (Rejected m, tried) \<Rightarrow> Some (Process_exit 1, tried)))"

section \<open>Notions used in the statements\<close>

text \<open>The operations among the logged calls.\<close>

fun is_operation :: "call \<Rightarrow> bool" where
  "is_operation (Operation n a b) = True"
| "is_operation _ = False"

definition operations :: "state \<Rightarrow> call list" where
  "operations s = filter is_operation (calls s)"

text \<open>
  The compatibility table as the specification lists it, extensions without their
  dot, and membership of a pair whose extension has the dot, as \<^verbatim>\<open>path.extname\<close>
  returns it.
\<close>

definition compatibility_table :: "(string \<times> string) list" where
  "compatibility_table =
     [(''docx'', ''pdf''), (''pptx'', ''pdf''), (''xlsx'', ''pdf''),
      (''pdf'', ''jpg''), (''pdf'', ''docx''),
      (''jpg'', ''pdf''), (''jpeg'', ''pdf''), (''png'', ''pdf'')]"

definition in_table :: "string \<Rightarrow> string \<Rightarrow> bool" where
  "in_table ext targetFormat =
     (case ext of
        [] \<Rightarrow> False
      | c # e \<Rightarrow> c = CHR ''.'' \<and> (e, targetFormat) \<in> set compatibility_table)"

text \<open>The values that the handler computes from a request.\<close>

definition ext_of :: "multer_file \<Rightarrow> string" where
  "ext_of fl = toLowerCase (extname (originalname fl))"

definition targetFormat_of :: "request \<Rightarrow> string" where
  "targetFormat_of req =
     trim (toLowerCase (case body_targetFormat req of Text t \<Rightarrow> t | _ \<Rightarrow> []))"

definition outBase_of :: "world \<Rightarrow> multer_file \<Rightarrow> nat \<Rightarrow> path" where
  "outBase_of w fl now_out =
     path_join (OUTPUTS_DIR w) (basename (originalname fl) (ext_of fl) @ ''-'' @ dec now_out)"

definition is_file :: "filesys \<Rightarrow> path \<Rightarrow> bool" where
  "is_file f p = (case f p of Some (File b) \<Rightarrow> True | _ \<Rightarrow> False)"

text \<open>A world and a state for the examples.\<close>

definition example_world :: world where
  "example_world =
     \<lparr>dirname = ''/app'', platform = ''linux'', env = Map.empty,
      pdfConvertPoppler = None,
      execFile = (\<lambda>cmd args t e f. (None, f)),
      libreConvert = (\<lambda>b t. Inr ''%PDF-of-office''),
      png_decode = (\<lambda>b. Some (2, 3)),
      jpg_decode = (\<lambda>b. Some (4, 5)),
      pdf_save = (\<lambda>d. ''%PDF-'' @ dec (length (pages d))),
      listen = (\<lambda>p. Listening),
      remove_failure = (\<lambda>p f. None)\<rparr>"

definition empty_state :: state where
  "empty_state = \<lparr>files = Map.empty, calls = []\<rparr>"

text \<open>
  More worlds for the examples: a host that is not Linux, without and with the
  converter of \<^verbatim>\<open>pdf-poppler\<close>, and Linux hosts whose \<^verbatim>\<open>pdftoppm\<close> writes the first
  page and whose office renderer writes \<^verbatim>\<open>in.docx\<close> into its output directory.
\<close>

definition darwin_world :: world where
  "darwin_world = example_world\<lparr>platform := ''darwin''\<rparr>"

definition poppler_world :: world where
  "poppler_world =
     example_world\<lparr>platform := ''darwin'',
       pdfConvertPoppler :=
         Some (\<lambda>i opts f.
           case opts of Poppler_opts fmt dir pre pg \<Rightarrow>
             (None, f(path_join dir (pre @ ''-'' @ dec pg @ ''.jpg'') \<mapsto> File ''JFIF'')))\<rparr>"

definition pdftoppm_world :: world where
  "pdftoppm_world =
     example_world\<lparr>execFile :=
       (\<lambda>cmd args t e f. (None, f(args ! 6 @ ''-1.jpg'' \<mapsto> File ''JFIF'')))\<rparr>"


text \<open>
  The PDF-to-image operation as the specification words it: the rasteriser is run on
  the first page, and then the expected first-page file \<^verbatim>\<open>page-1.jpg\<close> must exist in
  the output directory, or the operation fails with "no output produced".  \<open>ok\<close>
  says that the rasteriser returned without an error, \<open>f\<close> is the file system it
  left.  \<open>outcome_of\<close> reads the result of \<^verbatim>\<open>pdfToJpg\<close> in these terms.
\<close>

datatype image_outcome = Rasterizer_failed | No_output_produced | First_page path | Not_available

definition spec_pdf_to_image :: "path \<Rightarrow> bool \<Rightarrow> filesys \<Rightarrow> image_outcome" where
  "spec_pdf_to_image outputDir ok f =
     (if \<not> ok then Rasterizer_failed
      else if f (path_join outputDir ''page-1.jpg'') = None then No_output_produced
      else First_page (path_join outputDir ''page-1.jpg''))"

fun outcome_of :: "error + path \<Rightarrow> image_outcome" where
  "outcome_of (Inr p) = First_page p"
| "outcome_of (Inl (Thrown m)) =
     (if m = ''PDF to JPG conversion produced no output.'' then No_output_produced
      else Not_available)"
| "outcome_of (Inl e) = Rasterizer_failed"

text \<open>
  The names that \<^verbatim>\<open>pdfToDocx\<close> computes: its temporary directory, the arguments
  and the environment of the renderer, the final path of the document, and the file
  system after its two calls of \<^verbatim>\<open>ensureDir\<close>.
\<close>

definition tempDir_of :: "world \<Rightarrow> nat \<Rightarrow> path" where
  "tempDir_of w now = path_join (OUTPUTS_DIR w) (''lo_'' @ dec now)"





text \<open>
  Decimal digits, and the time stamp read back from a stored file name: the extension
  is cut off at the last dot (a file name with an extension has at least three
  characters up to that dot), and the stamp is what follows the last dash.
\<close>

definition is_digit :: "char \<Rightarrow> bool" where
  "is_digit c = (c \<in> set ''0123456789'')"

definition stamp_of :: "string \<Rightarrow> string" where
  "stamp_of x =
     (let y = (if 3 \<le> dot_end x then take (dot_end x - 1) x else x)
      in rev (takeWhile (\<lambda>c. c \<noteq> CHR ''-'') (rev y)))"

text \<open>
  Two worlds for the start-up: the port comes from the environment and is occupied,
  and every port is occupied.
\<close>

definition env_port_world :: world where
  "env_port_world =
     example_world\<lparr>env := [''PORT'' \<mapsto> ''3000''],
       listen := (\<lambda>p. if p = Str ''3000'' then Error_event ''EADDRINUSE'' else Listening)\<rparr>"

definition busy_world :: world where
  "busy_world = example_world\<lparr>listen := (\<lambda>p. Error_event ''EADDRINUSE'')\<rparr>"

text \<open>
  The end of the handler as a function of what the operation of the taken branch
  left: its failure, if it threw, and the values of \<^verbatim>\<open>outputPath\<close> and
  \<^verbatim>\<open>outputDirForPdf\<close> at that moment.  A failure is answered by the \<^verbatim>\<open>catch\<close>
  block, a result by the download; the three removals follow in both cases.
  \<open>failure_of\<close> and \<open>produced\<close> read the failure and the returned path off the
  result of an operation.
\<close>

fun failure_of :: "error + 'a \<Rightarrow> error option" where
  "failure_of (Inl e) = Some e"
| "failure_of (Inr x) = None"

fun produced :: "error + path \<Rightarrow> path option" where
  "produced (Inl e) = None"
| "produced (Inr p) = Some p"

definition delivery ::
  "world \<Rightarrow> path \<Rightarrow> error option \<Rightarrow> path option \<Rightarrow> path option \<Rightarrow> state
     \<Rightarrow> response \<times> state" where
  "delivery w uploadPath failure outputPath outputDirForPdf s1 =
     ((case failure of
         Some e \<Rightarrow> Response 500 (Json_error (failure_body e))
       | None \<Rightarrow> download (files s1) outputPath),
      s1\<lparr>files := cleanup w (Some uploadPath) outputPath outputDirForPdf (files s1)\<rparr>)"


section \<open>Basic facts\<close>

lemma in_table_iff:
  "in_table ext tf \<longleftrightarrow>
     (ext \<in> set [''.docx'', ''.pptx'', ''.xlsx''] \<and> tf = ''pdf'')
     \<or> (ext = ''.pdf'' \<and> tf = ''jpg'')
     \<or> (ext = ''.pdf'' \<and> tf = ''docx'')
     \<or> (ext \<in> set [''.jpg'', ''.jpeg'', ''.png''] \<and> tf = ''pdf'')"
  by (cases ext) (auto simp: in_table_def compatibility_table_def)

lemma in_table_targetFormat: "in_table ext tf \<Longrightarrow> tf \<noteq> []"
  by (auto simp: in_table_iff)

lemma operations_log_call [simp]:
  "operations (log_call c s) = operations s @ (if is_operation c then [c] else [])"
  by (simp add: operations_def log_call_def)

lemma operations_files_update [simp]: "operations (s\<lparr>files := f\<rparr>) = operations s"
  by (simp add: operations_def)








lemma ensureDir_Inl_iff: "(\<exists>e. ensureDir f p = Inl e) \<longleftrightarrow> is_file f p"
  by (auto simp: ensureDir_def is_file_def split: option.splits node.splits)

lemma route_Unsupported_iff:
  "fst (route w up ext tf ob nt s) = Unsupported \<longleftrightarrow> \<not> in_table ext tf"
  unfolding in_table_iff route_def
  by (simp add: Let_def split: prod.splits sum.splits)

lemma route_Unsupported_state:
  "route w up ext tf ob nt s = (Unsupported, s') \<Longrightarrow> s' = s"
  unfolding route_def
  by (simp add: Let_def split: prod.splits sum.splits if_splits)

lemma route_office:
  assumes "ext \<in> set [''.docx'', ''.pptx'', ''.xlsx'']" and "tf = ''pdf''"
  shows "route w up ext tf ob nt s =
     (case officeToPdf w up (ob @ ''.pdf'') (log_call (Operation OfficeToPdf up (ob @ ''.pdf'')) s) of
        (Inl e, s1) \<Rightarrow> (Ran (Some e) (Some (ob @ ''.pdf'')) None, s1)
      | (Inr _, s1) \<Rightarrow> (Ran None (Some (ob @ ''.pdf'')) None, s1))"
  using assms by (simp add: route_def Let_def)

lemma route_jpg:
  assumes "ext = ''.pdf''" and "tf = ''jpg''"
  shows "route w up ext tf ob nt s =
     (case ensureDir (files s) (ob @ ''-pages'') of
        Inl e \<Rightarrow> (Ran (Some e) None (Some (ob @ ''-pages'')), s)
      | Inr f \<Rightarrow>
          (case pdfToJpg w up (ob @ ''-pages'')
                  (log_call (Operation PdfToJpg up (ob @ ''-pages'')) (s\<lparr>files := f\<rparr>)) of
             (Inl e, s1) \<Rightarrow> (Ran (Some e) None (Some (ob @ ''-pages'')), s1)
           | (Inr firstPagePath, s1) \<Rightarrow>
               (Ran None (Some firstPagePath) (Some (ob @ ''-pages'')), s1)))"
  using assms by (simp add: route_def Let_def)

lemma route_docx:
  assumes "ext = ''.pdf''" and "tf = ''docx''"
  shows "route w up ext tf ob nt s =
     (case pdfToDocx w up (ob @ ''-docx'') nt
             (log_call (Operation PdfToDocx up (ob @ ''-docx'')) s) of
        (Inl e, s1) \<Rightarrow> (Ran (Some e) None (Some (ob @ ''-docx'')), s1)
      | (Inr docxPath, s1) \<Rightarrow> (Ran None (Some docxPath) (Some (ob @ ''-docx'')), s1))"
  using assms by (simp add: route_def Let_def)

lemma route_image:
  assumes "ext \<in> set [''.jpg'', ''.jpeg'', ''.png'']" and "tf = ''pdf''"
  shows "route w up ext tf ob nt s =
     (case imageToPdf w up (ob @ ''.pdf'') (log_call (Operation ImageToPdf up (ob @ ''.pdf'')) s) of
        (Inl e, s1) \<Rightarrow> (Ran (Some e) (Some (ob @ ''.pdf'')) None, s1)
      | (Inr _, s1) \<Rightarrow> (Ran None (Some (ob @ ''.pdf'')) None, s1))"
  using assms by (auto simp add: route_def Let_def)

lemma convert_handler_routed:
  assumes "req_file req = Some fl" and "\<forall>ts. body_targetFormat req \<noteq> Array ts"
    and "targetFormat_of req \<noteq> []"
  shows "convert_handler w req now_out now_tmp s =
     finish w (file_path fl) (ext_of fl) (targetFormat_of req)
       (route w (file_path fl) (ext_of fl) (targetFormat_of req) (outBase_of w fl now_out) now_tmp s)"
  using assms
  by (cases "body_targetFormat req")
     (simp_all add: convert_handler_def Let_def ext_of_def targetFormat_of_def outBase_of_def)

lemma convert_handler_no_targetFormat:
  assumes "req_file req = Some fl" and "\<forall>ts. body_targetFormat req \<noteq> Array ts"
    and "targetFormat_of req = []"
  shows "convert_handler w req now_out now_tmp s =
     (Response 400 (Json_error ''targetFormat is required (pdf, jpg, or docx).''), s)"
  using assms
  by (cases "body_targetFormat req")
     (simp_all add: convert_handler_def Let_def targetFormat_of_def)



lemma finish_Unsupported:
  "finish w up ext tf (Unsupported, s1) = (resp, s') \<Longrightarrow>
     (\<exists>m. resp = Response 400 (Json_error m)) \<and> s' = s1"
  by (auto simp: finish_def)

lemma dec_digit [simp]: "n < 10 \<Longrightarrow> dec n = [digit_char n]"
  by (simp add: dec.simps)

lemmas string_eval =
  toLowerCase_def lower_char_def trim_def white_space_def extname_def last_part_def dot_end_def
  basename_def path_join_def digit_char_def

lemma upload_example:
  "upload_single example_world
     \<lparr>file_field = Some (File_part ''a.pdf'' ''application/pdf'' ''%PDF''),
      targetFormat_fields = tfs\<rparr> 7 empty_state =
   Inr (\<lparr>req_file = Some \<lparr>originalname = ''a.pdf'', mimetype = ''application/pdf'',
                           file_path = ''/app/uploads/a-7.pdf'', file_size = length ''%PDF''\<rparr>,
         body_targetFormat = body_of_fields tfs\<rparr>,
        \<lparr>files = [''/app/uploads/a-7.pdf'' \<mapsto> File ''%PDF''], calls = []\<rparr>)"
  by (simp add: upload_single_def fileFilter_def allowed_mimetypes_def fileSize_limit_def
      storage_filename_def UPLOADS_DIR_def example_world_def empty_state_def Let_def string_eval)



lemma example_pdf_jpg_route:
  "route example_world ''/app/uploads/a-7.pdf'' ''.pdf'' ''jpg'' ''/app/outputs/a-8'' 9
     \<lparr>files = [''/app/uploads/a-7.pdf'' \<mapsto> File ''%PDF''], calls = []\<rparr>
   = (Ran (Some (Thrown ''PDF to JPG conversion produced no output.'')) None
        (Some ''/app/outputs/a-8-pages''),
      \<lparr>files = [''/app/uploads/a-7.pdf'' \<mapsto> File ''%PDF'', ''/app/outputs/a-8-pages'' \<mapsto> Dir],
       calls = [Operation PdfToJpg ''/app/uploads/a-7.pdf'' ''/app/outputs/a-8-pages'',
                ExecFile ''pdftoppm'' [''-jpeg'', ''-f'', ''1'', ''-l'', ''1'',
                   ''/app/uploads/a-7.pdf'', ''/app/outputs/a-8-pages/page''] None]\<rparr>)"
  by (simp add: route_def ensureDir_def pdfToJpg_def isLinux_def example_world_def
      execFileAsync_def first_page_check_def pathExists_def log_call_def path_join_def Let_def)

lemma example_jpg_request:
  "ext_of \<lparr>originalname = ''a.pdf'', mimetype = ''application/pdf'',
            file_path = ''/app/uploads/a-7.pdf'', file_size = 4\<rparr> = ''.pdf''"
  "targetFormat_of \<lparr>req_file = Some \<lparr>originalname = ''a.pdf'', mimetype = ''application/pdf'',
            file_path = ''/app/uploads/a-7.pdf'', file_size = 4\<rparr>,
      body_targetFormat = Text ''jpg''\<rparr> = ''jpg''"
  "outBase_of example_world \<lparr>originalname = ''a.pdf'', mimetype = ''application/pdf'',
            file_path = ''/app/uploads/a-7.pdf'', file_size = 4\<rparr> 8 = ''/app/outputs/a-8''"
    apply (simp add: ext_of_def string_eval)
   apply (simp add: targetFormat_of_def toLowerCase_def lower_char_def trim_def white_space_def)
  apply (simp add: outBase_of_def OUTPUTS_DIR_def example_world_def ext_of_def string_eval)
  done

lemma imageToPdf_result:
  "imageToPdf w i out s =
     (case readFile (files s) i of
        Inl e \<Rightarrow> (Inl e, s)
      | Inr b \<Rightarrow>
          (let c = (if toLowerCase (extname i) = ''.png'' then Png else Jpeg);
               s1 = log_call (case c of Png \<Rightarrow> EmbedPng | Jpeg \<Rightarrow> EmbedJpg) s
           in case (case c of Png \<Rightarrow> png_decode w b | Jpeg \<Rightarrow> jpg_decode w b) of
                None \<Rightarrow>
                  (Inl (case c of Png \<Rightarrow> ThrownString ''The input is not a PNG file!''
                        | Jpeg \<Rightarrow> LibError ''SOI not found in JPEG''), s1)
              | Some (wd, ht) \<Rightarrow>
                  (case writeFile (files s) out
                          (pdf_save w \<lparr>embedded = [Pdf_image c wd ht b],
                             pages = [Page wd ht [DrawImage (Pdf_image c wd ht b) 0 0 wd ht]]\<rparr>) of
                     Inl e \<Rightarrow> (Inl e, s1)
                   | Inr f \<Rightarrow> (Inr (), s1\<lparr>files := f\<rparr>))))"
  by (simp add: imageToPdf_def embedPng_def embedJpg_def PDFDocument_create_def addPage_def
      drawImage_def log_call_def Let_def split: sum.splits option.splits prod.splits)

lemma example_png_image:
  "imageToPdf example_world ''/app/uploads/a-7.png'' ''/app/outputs/a-8.pdf''
     \<lparr>files = [''/app/uploads/a-7.png'' \<mapsto> File ''png''], calls = cs\<rparr>
   = (Inr (), \<lparr>files = [''/app/uploads/a-7.png'' \<mapsto> File ''png'',
                         ''/app/outputs/a-8.pdf'' \<mapsto> File ''%PDF-1''],
                calls = cs @ [EmbedPng]\<rparr>)"
  by (simp add: imageToPdf_result readFile_def writeFile_def example_world_def log_call_def
      Let_def string_eval)


lemma example_png_request:
  "ext_of \<lparr>originalname = ''a.png'', mimetype = ''image/png'',
            file_path = ''/app/uploads/a-7.png'', file_size = 3\<rparr> = ''.png''"
  "targetFormat_of \<lparr>req_file = Some \<lparr>originalname = ''a.png'', mimetype = ''image/png'',
            file_path = ''/app/uploads/a-7.png'', file_size = 3\<rparr>,
      body_targetFormat = Text ''pdf''\<rparr> = ''pdf''"
  "outBase_of example_world \<lparr>originalname = ''a.png'', mimetype = ''image/png'',
            file_path = ''/app/uploads/a-7.png'', file_size = 3\<rparr> 8 = ''/app/outputs/a-8''"
    apply (simp add: ext_of_def string_eval)
   apply (simp add: targetFormat_of_def toLowerCase_def lower_char_def trim_def white_space_def)
  apply (simp add: outBase_of_def OUTPUTS_DIR_def example_world_def ext_of_def string_eval)
  done


lemma ensureDir_cases:
  "ensureDir f p = (if is_file f p then Inl (FsError ''EEXIST'' p) else Inr (f(p \<mapsto> Dir)))"
  by (auto simp: ensureDir_def is_file_def split: option.splits node.splits)

lemma outcome_of_First_page: "outcome_of r = First_page p \<Longrightarrow> r = Inr p"
  by (cases r rule: outcome_of.cases) (auto split: if_splits)

lemma digit_char_is_digit: "d < 10 \<Longrightarrow> is_digit (digit_char d)"
proof -
  assume "d < 10"
  then have "d \<in> {0, 1, 2, 3, 4, 5, 6, 7, 8, 9}" by auto
  then show ?thesis by (auto simp: is_digit_def digit_char_def)
qed

lemma digit_value_digit_char: "d < 10 \<Longrightarrow> digit_value (digit_char d) = Some d"
proof -
  assume "d < 10"
  then have "d \<in> {0, 1, 2, 3, 4, 5, 6, 7, 8, 9}" by auto
  then show ?thesis by (auto simp: digit_value_def digit_char_def)
qed

lemma dec_digits: "c \<in> set (dec n) \<Longrightarrow> is_digit c"
proof (induction n rule: dec.induct)
  case (1 n)
  show ?case
  proof (cases "n < 10")
    case True
    with "1.prems" show ?thesis
      by (simp add: dec.simps [of n] digit_char_is_digit)
  next
    case False
    with "1.prems" "1.IH" show ?thesis
      by (auto simp add: dec.simps [of n] digit_char_is_digit)
  qed
qed

lemma dec_nonempty: "dec n \<noteq> []"
  by (simp add: dec.simps [of n])

lemma to_number_snoc:
  "to_number (xs @ [c]) acc =
     (case to_number xs acc of
        None \<Rightarrow> None
      | Some v \<Rightarrow> (case digit_value c of None \<Rightarrow> None | Some d \<Rightarrow> Some (10 * v + d)))"
  by (induction xs arbitrary: acc) (auto split: option.splits)

lemma to_number_dec: "to_number (dec n) 0 = Some n"
proof (induction n rule: dec.induct)
  case (1 n)
  show ?case
  proof (cases "n < 10")
    case True
    then show ?thesis
      by (simp add: dec.simps [of n] digit_value_digit_char)
  next
    case False
    then have d: "dec n = dec (n div 10) @ [digit_char (n mod 10)]"
      by (subst dec.simps) simp
    have v: "digit_value (digit_char (n mod 10)) = Some (n mod 10)"
      by (rule digit_value_digit_char) simp
    from "1.IH" [OF False] show ?thesis
      unfolding d to_number_snoc v by simp
  qed
qed

lemma dec_inj:
  assumes "dec m = dec n"
  shows "m = n"
proof -
  have "Some m = to_number (dec m) 0"
    by (simp only: to_number_dec)
  also have "\<dots> = to_number (dec n) 0"
    by (simp only: assms)
  also have "\<dots> = Some n"
    by (simp only: to_number_dec)
  finally show ?thesis by simp
qed

lemma dec_no_dash: "CHR ''-'' \<notin> set (dec n)"
  using dec_digits [of "CHR ''-''" n] by (auto simp: is_digit_def)

lemma dec_no_dot: "CHR ''.'' \<notin> set (dec n)"
  using dec_digits [of "CHR ''.''" n] by (auto simp: is_digit_def)

lemma after_last_dash:
  "rev (takeWhile (\<lambda>c. c \<noteq> CHR ''-'') (rev (b @ ''-'' @ dec n))) = dec n"
proof -
  have "takeWhile (\<lambda>c. c \<noteq> CHR ''-'') (rev (dec n) @ CHR ''-'' # rev b) = rev (dec n)"
    using dec_no_dash [of n] by (intro takeWhile_tail [THEN trans]) auto
  then show ?thesis by simp
qed

lemma stamped_inj:
  assumes "b1 @ ''-'' @ dec n1 = b2 @ ''-'' @ dec n2"
  shows "n1 = n2"
proof -
  have "rev (takeWhile (\<lambda>c. c \<noteq> CHR ''-'') (rev (b1 @ ''-'' @ dec n1)))
      = rev (takeWhile (\<lambda>c. c \<noteq> CHR ''-'') (rev (b2 @ ''-'' @ dec n2)))"
    by (simp only: assms)
  then have "dec n1 = dec n2"
    by (simp only: after_last_dash)
  then show ?thesis by (rule dec_inj)
qed

lemma dot_end_le: "dot_end b \<le> length b"
  unfolding dot_end_def
  by (metis length_dropWhile_le length_rev)

lemma dot_end_append_nodot:
  assumes "CHR ''.'' \<notin> set t"
  shows "dot_end (u @ t) = dot_end u"
proof -
  have "dropWhile (\<lambda>c. c \<noteq> CHR ''.'') (rev t @ rev u) = dropWhile (\<lambda>c. c \<noteq> CHR ''.'') (rev u)"
    using assms by (intro dropWhile_append2) auto
  then show ?thesis by (simp add: dot_end_def)
qed

lemma dot_end_dot:
  assumes "CHR ''.'' \<notin> set e"
  shows "dot_end (u @ CHR ''.'' # e) = length u + 1"
proof -
  have "dropWhile (\<lambda>c. c \<noteq> CHR ''.'') (rev e @ CHR ''.'' # rev u) = CHR ''.'' # rev u"
    using assms by (subst dropWhile_append2) auto
  then show ?thesis by (simp add: dot_end_def)
qed

lemma split_last_dot:
  assumes "dot_end b \<noteq> 0"
  shows "\<exists>u e. b = u @ CHR ''.'' # e \<and> CHR ''.'' \<notin> set e \<and> dot_end b = length u + 1"
proof -
  let ?P = "\<lambda>c. c \<noteq> CHR ''.''"
  from assms obtain x r where d: "dropWhile ?P (rev b) = x # r"
    by (cases "dropWhile ?P (rev b)") (auto simp: dot_end_def)
  then have x: "x = CHR ''.''"
    using hd_dropWhile [of ?P "rev b"] by auto
  have "rev b = takeWhile ?P (rev b) @ dropWhile ?P (rev b)" by simp
  then have "rev b = takeWhile ?P (rev b) @ CHR ''.'' # r" using d x by simp
  then have "rev (rev b) = rev (takeWhile ?P (rev b) @ CHR ''.'' # r)" by (rule arg_cong)
  then have b: "b = rev r @ CHR ''.'' # rev (takeWhile ?P (rev b))" by simp
  have n: "CHR ''.'' \<notin> set (rev (takeWhile ?P (rev b)))"
    using set_takeWhileD [of "CHR ''.''" ?P "rev b"] by auto
  have "dot_end b = length (rev r) + 1" using d by (simp add: dot_end_def)
  with b n show ?thesis by blast
qed

lemma extname_form:
  "extname p = [] \<or> (\<exists>e. extname p = CHR ''.'' # e \<and> CHR ''.'' \<notin> set e)"
proof (cases "dot_end (last_part p) \<le> 1 \<or> last_part p = ''..''")
  case True
  then show ?thesis by (auto simp: extname_def Let_def)
next
  case False
  then have "dot_end (last_part p) \<noteq> 0" by simp
  from split_last_dot [OF this] obtain u e
    where b: "last_part p = u @ CHR ''.'' # e" and e: "CHR ''.'' \<notin> set e"
      and k: "dot_end (last_part p) = length u + 1"
    by blast
  have "extname p = drop (length u) (last_part p)"
    using False k by (simp add: extname_def Let_def)
  also have "\<dots> = CHR ''.'' # e" by (simp add: b)
  finally show ?thesis using e by blast
qed

lemma extname_empty:
  assumes "extname p = []"
  shows "dot_end (last_part p) \<le> 2"
proof (cases "dot_end (last_part p) \<le> 1 \<or> last_part p = ''..''")
  case True
  then show ?thesis by (auto simp: dot_end_def)
next
  case False
  with assms have "length (last_part p) \<le> dot_end (last_part p) - 1"
    by (simp add: extname_def Let_def)
  with dot_end_le [of "last_part p"] False show ?thesis by simp
qed

lemma stamp_of_storage_filename: "stamp_of (storage_filename name now) = dec now"
proof -
  from extname_form [of name] consider (none) "extname name = []"
    | (some) e where "extname name = CHR ''.'' # e" "CHR ''.'' \<notin> set e"
    by blast
  then show ?thesis
  proof cases
    case none
    then have x: "storage_filename name now = last_part name @ ''-'' @ dec now"
      by (simp add: storage_filename_def basename_def Let_def)
    have "CHR ''.'' \<notin> set (''-'' @ dec now)"
      using dec_no_dot [of now] by simp
    then have "dot_end (last_part name @ ''-'' @ dec now) = dot_end (last_part name)"
      by (rule dot_end_append_nodot)
    with extname_empty [OF none] have "\<not> 3 \<le> dot_end (last_part name @ ''-'' @ dec now)"
      by simp
    then show ?thesis
      unfolding x stamp_of_def Let_def by (simp only: if_False after_last_dash)
  next
    case some
    let ?y = "basename name (extname name) @ ''-'' @ dec now"
    have x: "storage_filename name now = ?y @ CHR ''.'' # e"
      by (simp add: storage_filename_def Let_def some)
    have k: "dot_end (?y @ CHR ''.'' # e) = length ?y + 1"
      using some(2) by (rule dot_end_dot)
    have "1 \<le> length (dec now)"
      using dec_nonempty [of now] by (cases "dec now") auto
    then have 3: "3 \<le> dot_end (?y @ CHR ''.'' # e)"
      unfolding k by simp
    have "take (dot_end (?y @ CHR ''.'' # e) - 1) (?y @ CHR ''.'' # e) = ?y"
      unfolding k by simp
    then show ?thesis
      unfolding x stamp_of_def Let_def using 3 by (simp only: if_True after_last_dash)
  qed
qed

lemma storage_filename_inj:
  assumes "storage_filename name1 now1 = storage_filename name2 now2"
  shows "now1 = now2"
proof -
  have "stamp_of (storage_filename name1 now1) = stamp_of (storage_filename name2 now2)"
    by (simp only: assms)
  then have "dec now1 = dec now2"
    by (simp only: stamp_of_storage_filename)
  then show ?thesis by (rule dec_inj)
qed

lemma outBase_inj:
  assumes "outBase_of w fl1 now1 = outBase_of w fl2 now2"
  shows "now1 = now2"
  using assms unfolding outBase_of_def path_join_def
  by (simp only: same_append_eq stamped_inj [of _ now1 _ now2])

lemma suffix_last:
  "last (a @ ''.pdf'') = CHR ''f''" "last (a @ ''-pages'') = CHR ''s''"
  "last (a @ ''-docx'') = CHR ''x''"
  by simp_all

lemma env_port: "PORT env_port_world = Str ''3000''"
  by (simp add: PORT_def env_port_world_def example_world_def)

lemma tryListen_number_terminates:
  assumes "PORT w = Num P"
  shows "\<exists>r tried'. tryListen w m (Num p) tried = Some (r, tried')
     \<and> length tried' \<le> length tried + 1 + nat (P + int m - p)"
proof (induction "nat (P + int m - p)" arbitrary: p tried)
  case 0
  then have "\<not> p < P + int m" by simp
  then show ?case
    by (subst tryListen.simps) (auto simp: assms split: listen_outcome.splits)
next
  case (Suc k)
  then have k: "k = nat (P + int m - (p + 1))" by simp
  from Suc(1) [OF k, of "tried @ [Num p]"]
  obtain r tried' where "tryListen w m (Num (p + 1)) (tried @ [Num p]) = Some (r, tried')"
    and "length tried' \<le> length (tried @ [Num p]) + 1 + nat (P + int m - (p + 1))"
    by blast
  with Suc(2) show ?case
    by (subst tryListen.simps) (auto simp: assms split: listen_outcome.splits)
qed

lemma default_port_all_busy:
  "PORT busy_world = Num 3000
   \<and> start busy_world Map.empty
       = Some (Process_exit 1, [Num 3000, Num 3001, Num 3002, Num 3003, Num 3004, Num 3005])"
proof -
  have p: "PORT busy_world = Num 3000"
    by (simp add: PORT_def busy_world_def example_world_def)
  have l: "\<And>p. listen busy_world p = Error_event ''EADDRINUSE''"
    by (simp add: busy_world_def example_world_def)
  have "tryListen busy_world 5 (Num 3000) []
      = Some (Rejected ''EADDRINUSE'', [Num 3000, Num 3001, Num 3002, Num 3003, Num 3004, Num 3005])"
    apply (subst tryListen.simps, simp add: l p)
    apply (subst tryListen.simps, simp add: l p)
    apply (subst tryListen.simps, simp add: l p)
    apply (subst tryListen.simps, simp add: l p)
    apply (subst tryListen.simps, simp add: l p)
    apply (subst tryListen.simps, simp add: l p)
    done
  with p show ?thesis
    by (simp add: start_def ensureDirs_def ensureDir_def Let_def)
qed

lemma finish_Ran:
  "finish w up ext tf (Ran failure out dir, s1) = delivery w up failure out dir s1"
  by (cases failure) (simp_all add: finish_def delivery_def catch_block_def)

lemma handler_office:
  assumes "ext \<in> set [''.docx'', ''.pptx'', ''.xlsx'']" and "tf = ''pdf''"
  shows "finish w up ext tf (route w up ext tf ob nt s) =
     (case officeToPdf w up (ob @ ''.pdf'') (log_call (Operation OfficeToPdf up (ob @ ''.pdf'')) s) of
        (r, s1) \<Rightarrow> delivery w up (failure_of r) (Some (ob @ ''.pdf'')) None s1)"
  unfolding route_office [OF assms]
  by (auto simp: finish_Ran split: prod.splits sum.splits)

lemma handler_image:
  assumes "ext \<in> set [''.jpg'', ''.jpeg'', ''.png'']" and "tf = ''pdf''"
  shows "finish w up ext tf (route w up ext tf ob nt s) =
     (case imageToPdf w up (ob @ ''.pdf'') (log_call (Operation ImageToPdf up (ob @ ''.pdf'')) s) of
        (r, s1) \<Rightarrow> delivery w up (failure_of r) (Some (ob @ ''.pdf'')) None s1)"
  unfolding route_image [OF assms]
  by (auto simp: finish_Ran split: prod.splits sum.splits)

lemma handler_jpg:
  assumes "ext = ''.pdf''" and "tf = ''jpg''"
  shows "finish w up ext tf (route w up ext tf ob nt s) =
     (case ensureDir (files s) (ob @ ''-pages'') of
        Inl e \<Rightarrow> delivery w up (Some e) None (Some (ob @ ''-pages'')) s
      | Inr f \<Rightarrow>
          (case pdfToJpg w up (ob @ ''-pages'')
                  (log_call (Operation PdfToJpg up (ob @ ''-pages'')) (s\<lparr>files := f\<rparr>)) of
             (r, s1) \<Rightarrow> delivery w up (failure_of r) (produced r) (Some (ob @ ''-pages'')) s1))"
  unfolding route_jpg [OF assms]
  by (auto simp: finish_Ran split: prod.splits sum.splits)

lemma handler_docx:
  assumes "ext = ''.pdf''" and "tf = ''docx''"
  shows "finish w up ext tf (route w up ext tf ob nt s) =
     (case pdfToDocx w up (ob @ ''-docx'') nt
             (log_call (Operation PdfToDocx up (ob @ ''-docx'')) s) of
        (r, s1) \<Rightarrow> delivery w up (failure_of r) (produced r) (Some (ob @ ''-docx'')) s1)"
  unfolding route_docx [OF assms]
  by (auto simp: finish_Ran split: prod.splits sum.splits)

lemma example_unsupported_request:
  "ext_of \<lparr>originalname = ''a.pdf'', mimetype = ''application/pdf'',
            file_path = ''/app/uploads/a-7.pdf'', file_size = 4\<rparr> = ''.pdf''"
  "targetFormat_of \<lparr>req_file = Some \<lparr>originalname = ''a.pdf'', mimetype = ''application/pdf'',
            file_path = ''/app/uploads/a-7.pdf'', file_size = 4\<rparr>,
      body_targetFormat = Text ([CHR 0xC2, CHR 0xA0] @ ''PDF '')\<rparr> = ''pdf''"
   apply (simp add: ext_of_def string_eval)
  apply (simp add: targetFormat_of_def toLowerCase_def lower_char_def trim_def white_space_def)
  done
















section \<open>Clean-up after a failed request\<close>

text \<open>
  Claim C1 says that every failing request leaves nothing of its own in the scratch
  directories.  The \<^verbatim>\<open>catch\<close> block and the callback of the download do remove the
  upload, the output file and the output directory, but the two answers 400 that come
  after the upload was stored (target format missing, pair unsupported) are plain
  \<^verbatim>\<open>return\<close>s inside the \<^verbatim>\<open>try\<close> block: no clean-up runs and the stored upload
  stays.  Here a PDF is posted without a target format, and then with the target
  format \<^verbatim>\<open>pdf\<close>; both times the upload is still there afterwards.
\<close>

theorem validation_failure_leaves_upload:
  "post_convert example_world
     \<lparr>file_field = Some (File_part ''a.pdf'' ''application/pdf'' ''%PDF''),
      targetFormat_fields = []\<rparr> 7 8 9 empty_state =
   (Response 400 (Json_error ''targetFormat is required (pdf, jpg, or docx).''),
    \<lparr>files = [''/app/uploads/a-7.pdf'' \<mapsto> File ''%PDF''], calls = []\<rparr>)
   \<and> snd (post_convert example_world
     \<lparr>file_field = Some (File_part ''a.pdf'' ''application/pdf'' ''%PDF''),
      targetFormat_fields = [''pdf'']\<rparr> 7 8 9 empty_state) =
    \<lparr>files = [''/app/uploads/a-7.pdf'' \<mapsto> File ''%PDF''], calls = []\<rparr>"
  by (simp add: post_convert_def upload_example convert_handler_def route_def finish_def Let_def
      string_eval)

section \<open>Status codes of failures\<close>

text \<open>
  Claim C2 gives 400 and a JSON body to every validation failure, a disallowed MIME
  type included.  The handler answers so for the failures it sees itself (no file, no
  target format, unsupported pair), and \<^verbatim>\<open>README.md\<close> promises a JSON object with
  the field \<^verbatim>\<open>error\<close> on failure.  The file filter however hands its error to
  \<^verbatim>\<open>next\<close>, and \<^verbatim>\<open>server.js\<close> registers no error-handling middleware: the
  default handler of the framework answers, with 500 and an HTML page, so the message
  that the filter wrote for the user is in no JSON body.  Here a text file is posted.
\<close>

theorem disallowed_type_answer:
  "post_convert example_world
     \<lparr>file_field = Some (File_part ''notes.txt'' ''text/plain'' ''hello''),
      targetFormat_fields = [''pdf'']\<rparr> 7 8 9 empty_state =
   (Response 500 (Html_error ''File type not supported. Use DOCX, PPTX, XLSX, PDF, JPG, or PNG.''),
    empty_state)"
  by (simp add: post_convert_def upload_single_def fileFilter_def allowed_mimetypes_def
      default_error_handler_def)

section \<open>Routing\<close>

text \<open>
  Claim C3 says that the router dispatches to a conversion operation exactly when the
  pair of extension and target format is in the compatibility table.  For the pair PDF
  to JPG the handler first creates the directory \<^verbatim>\<open><outBase>-pages\<close> (line 193);
  when that fails, the error is caught and answered with 500, and \<^verbatim>\<open>pdfToJpg\<close> is
  not called although the pair is in the table.  Here the name of that directory is
  taken by a regular file: the answer is the error of \<^verbatim>\<open>ensureDir\<close>, and no call
  was made.
\<close>

theorem table_pair_without_dispatch:
  "in_table (ext_of \<lparr>originalname = ''a.pdf'', mimetype = ''application/pdf'',
                     file_path = ''/app/uploads/a-7.pdf'', file_size = 4\<rparr>)
            (targetFormat_of
               \<lparr>req_file = Some \<lparr>originalname = ''a.pdf'', mimetype = ''application/pdf'',
                                  file_path = ''/app/uploads/a-7.pdf'', file_size = 4\<rparr>,
                body_targetFormat = Text ''jpg''\<rparr>)
   \<and> fst (convert_handler example_world
            \<lparr>req_file = Some \<lparr>originalname = ''a.pdf'', mimetype = ''application/pdf'',
                               file_path = ''/app/uploads/a-7.pdf'', file_size = 4\<rparr>,
             body_targetFormat = Text ''jpg''\<rparr> 8 9
            \<lparr>files = [''/app/uploads/a-7.pdf'' \<mapsto> File ''%PDF'',
                      ''/app/outputs/a-8-pages'' \<mapsto> File ''x''], calls = []\<rparr>)
       = Response 500 (Json_error ''EEXIST: /app/outputs/a-8-pages'')
   \<and> calls (snd (convert_handler example_world
            \<lparr>req_file = Some \<lparr>originalname = ''a.pdf'', mimetype = ''application/pdf'',
                               file_path = ''/app/uploads/a-7.pdf'', file_size = 4\<rparr>,
             body_targetFormat = Text ''jpg''\<rparr> 8 9
            \<lparr>files = [''/app/uploads/a-7.pdf'' \<mapsto> File ''%PDF'',
                      ''/app/outputs/a-8-pages'' \<mapsto> File ''x''], calls = []\<rparr>)) = []"
proof -
  let ?fl = "\<lparr>originalname = ''a.pdf'', mimetype = ''application/pdf'',
              file_path = ''/app/uploads/a-7.pdf'', file_size = 4\<rparr>"
  let ?req = "\<lparr>req_file = Some ?fl, body_targetFormat = Text ''jpg''\<rparr>"
  let ?s = "\<lparr>files = [''/app/uploads/a-7.pdf'' \<mapsto> File ''%PDF'',
                      ''/app/outputs/a-8-pages'' \<mapsto> File ''x''], calls = []\<rparr>"
  note e = example_jpg_request(1) and t = example_jpg_request(2) and b = example_jpg_request(3)
  have i: "in_table ''.pdf'' ''jpg''"
    by (simp add: in_table_def compatibility_table_def)
  have r: "route example_world ''/app/uploads/a-7.pdf'' ''.pdf'' ''jpg'' ''/app/outputs/a-8'' 9 ?s
      = (Ran (Some (FsError ''EEXIST'' ''/app/outputs/a-8-pages'')) None
           (Some ''/app/outputs/a-8-pages''), ?s)"
    by (simp add: route_def ensureDir_def Let_def)
  have h: "convert_handler example_world ?req 8 9 ?s
      = finish example_world ''/app/uploads/a-7.pdf'' ''.pdf'' ''jpg''
          (route example_world ''/app/uploads/a-7.pdf'' ''.pdf'' ''jpg'' ''/app/outputs/a-8'' 9 ?s)"
    using convert_handler_routed [of ?req ?fl example_world 8 9 ?s]
    by (simp add: e t b)
  show ?thesis
    unfolding e t h r using i
    by (simp add: finish_def catch_block_def failure_body_def)
qed

text \<open>
  Claim C3, amended.  A file was stored and the target format is one text field, read
  lower-cased and trimmed.  Then the pair is in the compatibility table exactly when
  one of the four branches of the router is taken.  A pair outside the table is answered
  with 400 and a JSON error, and the state is as before: nothing was called, nothing
  written.  For a pair in the table, the answer and the final state of the handler are
  the delivery of what the operation of that branch returns and leaves, the operation
  being called on the stored upload and the output name of the branch:
  \<^verbatim>\<open>officeToPdf\<close>, \<^verbatim>\<open>pdfToDocx\<close> and \<^verbatim>\<open>imageToPdf\<close> in every case, \<^verbatim>\<open>pdfToJpg\<close>
  when the directory \<^verbatim>\<open>-pages\<close> could be created; when it could not, the failure
  of \<^verbatim>\<open>ensureDir\<close> is delivered and the operation is not called.
\<close>

theorem router_follows_compatibility_table:
  assumes fl: "req_file req = Some fl"
    and na: "\<forall>ts. body_targetFormat req \<noteq> Array ts"
  shows
    "(in_table (ext_of fl) (targetFormat_of req) \<longleftrightarrow>
        (ext_of fl \<in> set [''.docx'', ''.pptx'', ''.xlsx''] \<and> targetFormat_of req = ''pdf'')
      \<or> (ext_of fl = ''.pdf'' \<and> targetFormat_of req = ''jpg'')
      \<or> (ext_of fl = ''.pdf'' \<and> targetFormat_of req = ''docx'')
      \<or> (ext_of fl \<in> set [''.jpg'', ''.jpeg'', ''.png''] \<and> targetFormat_of req = ''pdf''))
   \<and> (\<not> in_table (ext_of fl) (targetFormat_of req) \<longrightarrow>
        (\<exists>m. fst (convert_handler w req now_out now_tmp s) = Response 400 (Json_error m))
        \<and> snd (convert_handler w req now_out now_tmp s) = s)
   \<and> (ext_of fl \<in> set [''.docx'', ''.pptx'', ''.xlsx''] \<and> targetFormat_of req = ''pdf'' \<longrightarrow>
        (case officeToPdf w (file_path fl) (outBase_of w fl now_out @ ''.pdf'')
                (log_call (Operation OfficeToPdf (file_path fl) (outBase_of w fl now_out @ ''.pdf''))
                   s) of
           (r, s1) \<Rightarrow>
             convert_handler w req now_out now_tmp s =
               delivery w (file_path fl) (failure_of r)
                 (Some (outBase_of w fl now_out @ ''.pdf'')) None s1))
   \<and> (ext_of fl = ''.pdf'' \<and> targetFormat_of req = ''jpg'' \<longrightarrow>
        (case ensureDir (files s) (outBase_of w fl now_out @ ''-pages'') of
           Inl e \<Rightarrow>
             convert_handler w req now_out now_tmp s =
               delivery w (file_path fl) (Some e) None
                 (Some (outBase_of w fl now_out @ ''-pages'')) s
         | Inr f \<Rightarrow>
             (case pdfToJpg w (file_path fl) (outBase_of w fl now_out @ ''-pages'')
                     (log_call (Operation PdfToJpg (file_path fl)
                                  (outBase_of w fl now_out @ ''-pages''))
                        (s\<lparr>files := f\<rparr>)) of
                (r, s1) \<Rightarrow>
                  convert_handler w req now_out now_tmp s =
                    delivery w (file_path fl) (failure_of r) (produced r)
                      (Some (outBase_of w fl now_out @ ''-pages'')) s1)))
   \<and> (ext_of fl = ''.pdf'' \<and> targetFormat_of req = ''docx'' \<longrightarrow>
        (case pdfToDocx w (file_path fl) (outBase_of w fl now_out @ ''-docx'') now_tmp
                (log_call (Operation PdfToDocx (file_path fl)
                             (outBase_of w fl now_out @ ''-docx'')) s) of
           (r, s1) \<Rightarrow>
             convert_handler w req now_out now_tmp s =
               delivery w (file_path fl) (failure_of r) (produced r)
                 (Some (outBase_of w fl now_out @ ''-docx'')) s1))
   \<and> (ext_of fl \<in> set [''.jpg'', ''.jpeg'', ''.png''] \<and> targetFormat_of req = ''pdf'' \<longrightarrow>
        (case imageToPdf w (file_path fl) (outBase_of w fl now_out @ ''.pdf'')
                (log_call (Operation ImageToPdf (file_path fl) (outBase_of w fl now_out @ ''.pdf''))
                   s) of
           (r, s1) \<Rightarrow>
             convert_handler w req now_out now_tmp s =
               delivery w (file_path fl) (failure_of r)
                 (Some (outBase_of w fl now_out @ ''.pdf'')) None s1))"
proof (intro conjI impI)
  show "in_table (ext_of fl) (targetFormat_of req) \<longleftrightarrow>
        (ext_of fl \<in> set [''.docx'', ''.pptx'', ''.xlsx''] \<and> targetFormat_of req = ''pdf'')
      \<or> (ext_of fl = ''.pdf'' \<and> targetFormat_of req = ''jpg'')
      \<or> (ext_of fl = ''.pdf'' \<and> targetFormat_of req = ''docx'')
      \<or> (ext_of fl \<in> set [''.jpg'', ''.jpeg'', ''.png''] \<and> targetFormat_of req = ''pdf'')"
    by (rule in_table_iff)
next
  assume nt: "\<not> in_table (ext_of fl) (targetFormat_of req)"
  show "\<exists>m. fst (convert_handler w req now_out now_tmp s) = Response 400 (Json_error m)"
  proof (cases "targetFormat_of req = []")
    case True
    then show ?thesis by (simp add: convert_handler_no_targetFormat [OF fl na])
  next
    case False
    have "fst (route w (file_path fl) (ext_of fl) (targetFormat_of req)
        (outBase_of w fl now_out) now_tmp s) = Unsupported"
      using nt by (simp add: route_Unsupported_iff)
    then show ?thesis
      unfolding convert_handler_routed [OF fl na False]
      by (cases "route w (file_path fl) (ext_of fl) (targetFormat_of req)
        (outBase_of w fl now_out) now_tmp s") (simp add: finish_def)
  qed
  show "snd (convert_handler w req now_out now_tmp s) = s"
  proof (cases "targetFormat_of req = []")
    case True
    then show ?thesis by (simp add: convert_handler_no_targetFormat [OF fl na])
  next
    case False
    obtain r s1 where r: "route w (file_path fl) (ext_of fl) (targetFormat_of req)
        (outBase_of w fl now_out) now_tmp s = (r, s1)"
      by (cases "route w (file_path fl) (ext_of fl) (targetFormat_of req)
        (outBase_of w fl now_out) now_tmp s")
    then have u: "r = Unsupported"
      using nt route_Unsupported_iff [of w "file_path fl" "ext_of fl" "targetFormat_of req"
          "outBase_of w fl now_out" now_tmp s] by simp
    with r have "s1 = s" using route_Unsupported_state by blast
    with r u show ?thesis
      unfolding convert_handler_routed [OF fl na False] by (simp add: finish_def)
  qed
next
  assume a: "ext_of fl \<in> set [''.docx'', ''.pptx'', ''.xlsx''] \<and> targetFormat_of req = ''pdf''"
  then have ne: "targetFormat_of req \<noteq> []" by auto
  from a show "case officeToPdf w (file_path fl) (outBase_of w fl now_out @ ''.pdf'')
                (log_call (Operation OfficeToPdf (file_path fl) (outBase_of w fl now_out @ ''.pdf''))
                   s) of
           (r, s1) \<Rightarrow>
             convert_handler w req now_out now_tmp s =
               delivery w (file_path fl) (failure_of r)
                 (Some (outBase_of w fl now_out @ ''.pdf'')) None s1"
    unfolding convert_handler_routed [OF fl na ne]
    by (simp add: handler_office split: prod.splits)
next
  assume a: "ext_of fl = ''.pdf'' \<and> targetFormat_of req = ''jpg''"
  then have ne: "targetFormat_of req \<noteq> []" by auto
  from a show "case ensureDir (files s) (outBase_of w fl now_out @ ''-pages'') of
           Inl e \<Rightarrow>
             convert_handler w req now_out now_tmp s =
               delivery w (file_path fl) (Some e) None
                 (Some (outBase_of w fl now_out @ ''-pages'')) s
         | Inr f \<Rightarrow>
             (case pdfToJpg w (file_path fl) (outBase_of w fl now_out @ ''-pages'')
                     (log_call (Operation PdfToJpg (file_path fl)
                                  (outBase_of w fl now_out @ ''-pages''))
                        (s\<lparr>files := f\<rparr>)) of
                (r, s1) \<Rightarrow>
                  convert_handler w req now_out now_tmp s =
                    delivery w (file_path fl) (failure_of r) (produced r)
                      (Some (outBase_of w fl now_out @ ''-pages'')) s1)"
    unfolding convert_handler_routed [OF fl na ne]
    by (simp add: handler_jpg split: prod.splits sum.splits)
next
  assume a: "ext_of fl = ''.pdf'' \<and> targetFormat_of req = ''docx''"
  then have ne: "targetFormat_of req \<noteq> []" by auto
  from a show "case pdfToDocx w (file_path fl) (outBase_of w fl now_out @ ''-docx'') now_tmp
                (log_call (Operation PdfToDocx (file_path fl)
                             (outBase_of w fl now_out @ ''-docx'')) s) of
           (r, s1) \<Rightarrow>
             convert_handler w req now_out now_tmp s =
               delivery w (file_path fl) (failure_of r) (produced r)
                 (Some (outBase_of w fl now_out @ ''-docx'')) s1"
    unfolding convert_handler_routed [OF fl na ne]
    by (simp add: handler_docx split: prod.splits)
next
  assume a: "ext_of fl \<in> set [''.jpg'', ''.jpeg'', ''.png''] \<and> targetFormat_of req = ''pdf''"
  then have ne: "targetFormat_of req \<noteq> []" by auto
  from a show "case imageToPdf w (file_path fl) (outBase_of w fl now_out @ ''.pdf'')
                (log_call (Operation ImageToPdf (file_path fl) (outBase_of w fl now_out @ ''.pdf''))
                   s) of
           (r, s1) \<Rightarrow>
             convert_handler w req now_out now_tmp s =
               delivery w (file_path fl) (failure_of r)
                 (Some (outBase_of w fl now_out @ ''.pdf'')) None s1"
    unfolding convert_handler_routed [OF fl na ne]
    by (simp add: handler_image split: prod.splits)
qed

theorem router_follows_compatibility_table_witness:
  "fst (convert_handler example_world
     \<lparr>req_file = Some \<lparr>originalname = ''a.png'', mimetype = ''image/png'',
                        file_path = ''/app/uploads/a-7.png'', file_size = 3\<rparr>,
      body_targetFormat = Text ''pdf''\<rparr> 8 9
     \<lparr>files = [''/app/uploads/a-7.png'' \<mapsto> File ''png''], calls = []\<rparr>)
   = Response 200 (Attachment ''a-8.pdf'' ''%PDF-1'')
   \<and> convert_handler example_world
     \<lparr>req_file = Some \<lparr>originalname = ''a.png'', mimetype = ''image/png'',
                        file_path = ''/app/uploads/a-7.png'', file_size = 3\<rparr>,
      body_targetFormat = Text ''pdf''\<rparr> 8 9
     \<lparr>files = [''/app/uploads/a-7.png'' \<mapsto> File ''png''], calls = []\<rparr>
   = delivery example_world ''/app/uploads/a-7.png'' None (Some ''/app/outputs/a-8.pdf'') None
       \<lparr>files = [''/app/uploads/a-7.png'' \<mapsto> File ''png'',
                 ''/app/outputs/a-8.pdf'' \<mapsto> File ''%PDF-1''],
        calls = [Operation ImageToPdf ''/app/uploads/a-7.png'' ''/app/outputs/a-8.pdf'',
                 EmbedPng]\<rparr>
   \<and> snd (convert_handler example_world
     \<lparr>req_file = Some \<lparr>originalname = ''a.pdf'', mimetype = ''application/pdf'',
                        file_path = ''/app/uploads/a-7.pdf'', file_size = 4\<rparr>,
      body_targetFormat = Text ([CHR 0xC2, CHR 0xA0] @ ''PDF '')\<rparr> 8 9
     \<lparr>files = [''/app/uploads/a-7.pdf'' \<mapsto> File ''%PDF''], calls = []\<rparr>)
     = \<lparr>files = [''/app/uploads/a-7.pdf'' \<mapsto> File ''%PDF''], calls = []\<rparr>"
proof -
  let ?fl = "\<lparr>originalname = ''a.png'', mimetype = ''image/png'',
              file_path = ''/app/uploads/a-7.png'', file_size = 3\<rparr>"
  let ?req = "\<lparr>req_file = Some ?fl, body_targetFormat = Text ''pdf''\<rparr>"
  let ?s = "\<lparr>files = [''/app/uploads/a-7.png'' \<mapsto> File ''png''], calls = []\<rparr>"
  let ?gl = "\<lparr>originalname = ''a.pdf'', mimetype = ''application/pdf'',
              file_path = ''/app/uploads/a-7.pdf'', file_size = 4\<rparr>"
  let ?greq = "\<lparr>req_file = Some ?gl,
      body_targetFormat = Text ([CHR 0xC2, CHR 0xA0] @ ''PDF '')\<rparr>"
  let ?t = "\<lparr>files = [''/app/uploads/a-7.pdf'' \<mapsto> File ''%PDF''], calls = []\<rparr>"
  note p = example_png_request and u = example_unsupported_request
  have n: "\<not> in_table ''.pdf'' ''pdf''"
    by (simp add: in_table_def compatibility_table_def)
  have 1: "convert_handler example_world ?req 8 9 ?s
      = delivery example_world ''/app/uploads/a-7.png'' None (Some ''/app/outputs/a-8.pdf'') None
       \<lparr>files = [''/app/uploads/a-7.png'' \<mapsto> File ''png'',
                 ''/app/outputs/a-8.pdf'' \<mapsto> File ''%PDF-1''],
        calls = [Operation ImageToPdf ''/app/uploads/a-7.png'' ''/app/outputs/a-8.pdf'',
                 EmbedPng]\<rparr>"
    using router_follows_compatibility_table [of ?req ?fl example_world 8 9 ?s]
    unfolding p by (simp add: log_call_def example_png_image)
  have 2: "snd (convert_handler example_world ?greq 8 9 ?t) = ?t"
    using router_follows_compatibility_table [of ?greq ?gl example_world 8 9 ?t] n
    unfolding u by simp
  have 3: "fst (delivery example_world ''/app/uploads/a-7.png'' None
        (Some ''/app/outputs/a-8.pdf'') None
        \<lparr>files = [''/app/uploads/a-7.png'' \<mapsto> File ''png'',
                  ''/app/outputs/a-8.pdf'' \<mapsto> File ''%PDF-1''],
         calls = [Operation ImageToPdf ''/app/uploads/a-7.png'' ''/app/outputs/a-8.pdf'',
                  EmbedPng]\<rparr>)
      = Response 200 (Attachment ''a-8.pdf'' ''%PDF-1'')"
    by (simp add: delivery_def download_def readFile_def string_eval)
  from 1 2 3 show ?thesis by simp
qed

section \<open>Image to PDF\<close>

text \<open>
  Claim C4.  When \<^verbatim>\<open>imageToPdf\<close> succeeds, the bytes at the output path are the
  serialisation of a document with one embedded image and exactly one page: the page
  has the width and height that the decoder found in the input, and the image is drawn
  on it at (0, 0) with that width and height.  The decoder is the PNG one when the
  lower-cased extension is \<^verbatim>\<open>.png\<close> and the JPEG one otherwise.
\<close>

theorem imageToPdf_single_page:
  assumes "imageToPdf w inputPath outputPath s = (Inr (), s')"
  shows "\<exists>b wd ht c.
      readFile (files s) inputPath = Inr b
    \<and> c = (if toLowerCase (extname inputPath) = ''.png'' then Png else Jpeg)
    \<and> (case c of Png \<Rightarrow> png_decode w b | Jpeg \<Rightarrow> jpg_decode w b) = Some (wd, ht)
    \<and> files s' outputPath =
        Some (File (pdf_save w
          \<lparr>embedded = [Pdf_image c wd ht b],
           pages = [Page wd ht [DrawImage (Pdf_image c wd ht b) 0 0 wd ht]]\<rparr>))
    \<and> calls s' = calls s @ [case c of Png \<Rightarrow> EmbedPng | Jpeg \<Rightarrow> EmbedJpg]"
  using assms unfolding imageToPdf_result
  by (auto simp: Let_def writeFile_def log_call_def
      split: sum.splits option.splits prod.splits node.splits if_splits)

theorem imageToPdf_single_page_witness:
  "\<exists>b wd ht c.
      readFile [''/app/uploads/a-7.png'' \<mapsto> File ''png''] ''/app/uploads/a-7.png'' = Inr b
    \<and> c = Png
    \<and> png_decode example_world b = Some (wd, ht)
    \<and> files (snd (imageToPdf example_world ''/app/uploads/a-7.png'' ''/app/outputs/a-8.pdf''
                \<lparr>files = [''/app/uploads/a-7.png'' \<mapsto> File ''png''], calls = []\<rparr>))
          ''/app/outputs/a-8.pdf''
        = Some (File (pdf_save example_world
            \<lparr>embedded = [Pdf_image c wd ht b],
             pages = [Page wd ht [DrawImage (Pdf_image c wd ht b) 0 0 wd ht]]\<rparr>))"
proof -
  let ?s = "\<lparr>files = [''/app/uploads/a-7.png'' \<mapsto> File ''png''], calls = []\<rparr>"
  have e: "toLowerCase (extname ''/app/uploads/a-7.png'') = ''.png''"
    by (simp add: string_eval)
  have "imageToPdf example_world ''/app/uploads/a-7.png'' ''/app/outputs/a-8.pdf'' ?s
      = (Inr (), snd (imageToPdf example_world ''/app/uploads/a-7.png'' ''/app/outputs/a-8.pdf'' ?s))"
    by (simp add: example_png_image)
  from imageToPdf_single_page [OF this] show ?thesis
    unfolding e by auto
qed




section \<open>PDF to office document\<close>




section \<open>PDF to image\<close>

text \<open>
  Claim C7.  The two platform branches of \<^verbatim>\<open>pdfToJpg\<close> refine the same
  specification.  On Linux the rasteriser is \<^verbatim>\<open>pdftoppm -jpeg -f 1 -l 1\<close> with the
  prefix \<^verbatim>\<open>page\<close> in the output directory; elsewhere it is the library, called with
  format \<^verbatim>\<open>jpeg\<close>, page 1 and the prefix \<^verbatim>\<open>page\<close> in the same directory.  In both
  branches the result is the path \<^verbatim>\<open>page-1.jpg\<close> in the output directory when the
  rasteriser returned and that file exists, the failure "no output produced" exactly
  when it returned and the file is absent, and the failure of the rasteriser otherwise;
  the file system is the one the rasteriser left.
\<close>

theorem pdfToJpg_branches_refine_spec:
  assumes "\<not> is_file (files s) outputDir"
  shows "(isLinux w \<longrightarrow>
           (case execFile w ''pdftoppm''
                   [''-jpeg'', ''-f'', ''1'', ''-l'', ''1'', inputPath, path_join outputDir ''page'']
                   None None ((files s)(outputDir \<mapsto> Dir)) of
              (x, f1) \<Rightarrow>
                outcome_of (fst (pdfToJpg w inputPath outputDir s))
                  = spec_pdf_to_image outputDir (x = None) f1
              \<and> files (snd (pdfToJpg w inputPath outputDir s)) = f1
              \<and> calls (snd (pdfToJpg w inputPath outputDir s))
                  = calls s @ [ExecFile ''pdftoppm''
                      [''-jpeg'', ''-f'', ''1'', ''-l'', ''1'', inputPath,
                       path_join outputDir ''page''] None]))
       \<and> (\<not> isLinux w \<longrightarrow> (\<forall>convert. pdfConvertPoppler w = Some convert \<longrightarrow>
           (case convert inputPath (Poppler_opts ''jpeg'' outputDir ''page'' 1)
                   ((files s)(outputDir \<mapsto> Dir)) of
              (m, f1) \<Rightarrow>
                outcome_of (fst (pdfToJpg w inputPath outputDir s))
                  = spec_pdf_to_image outputDir (m = None) f1
              \<and> files (snd (pdfToJpg w inputPath outputDir s)) = f1
              \<and> calls (snd (pdfToJpg w inputPath outputDir s))
                  = calls s @ [PopplerConvert inputPath
                      (Poppler_opts ''jpeg'' outputDir ''page'' 1)])))"
  using assms
  by (auto simp: pdfToJpg_def ensureDir_cases Let_def execFileAsync_def first_page_check_def
      log_call_def spec_pdf_to_image_def pathExists_def split: prod.splits option.splits)

theorem pdfToJpg_branches_refine_spec_witness:
  "\<not> is_file (files empty_state) ''/app/outputs/a-8-pages''
   \<and> isLinux pdftoppm_world
   \<and> fst (pdfToJpg pdftoppm_world ''/app/uploads/a-7.pdf'' ''/app/outputs/a-8-pages'' empty_state)
       = Inr ''/app/outputs/a-8-pages/page-1.jpg''
   \<and> \<not> isLinux poppler_world
   \<and> fst (pdfToJpg poppler_world ''/app/uploads/a-7.pdf'' ''/app/outputs/a-8-pages'' empty_state)
       = Inr ''/app/outputs/a-8-pages/page-1.jpg''"
proof -
  let ?i = "''/app/uploads/a-7.pdf''"
  let ?d = "''/app/outputs/a-8-pages''"
  have d: "\<not> is_file (files empty_state) ?d"
    by (simp add: is_file_def empty_state_def)
  have l: "isLinux pdftoppm_world"
    by (simp add: isLinux_def pdftoppm_world_def example_world_def)
  have n: "\<not> isLinux poppler_world"
    by (simp add: isLinux_def poppler_world_def example_world_def)
  have pc: "pdfConvertPoppler poppler_world = Some (\<lambda>i opts f.
           case opts of Poppler_opts fmt dir pre pg \<Rightarrow>
             (None, f(path_join dir (pre @ ''-'' @ dec pg @ ''.jpg'') \<mapsto> File ''JFIF'')))"
    by (simp add: poppler_world_def example_world_def)
  have "outcome_of (fst (pdfToJpg pdftoppm_world ?i ?d empty_state))
      = First_page ''/app/outputs/a-8-pages/page-1.jpg''"
    using pdfToJpg_branches_refine_spec [OF d, of pdftoppm_world ?i] l
    by (simp add: pdftoppm_world_def example_world_def spec_pdf_to_image_def path_join_def)
  then have 1: "fst (pdfToJpg pdftoppm_world ?i ?d empty_state)
      = Inr ''/app/outputs/a-8-pages/page-1.jpg''"
    by (rule outcome_of_First_page)
  have "outcome_of (fst (pdfToJpg poppler_world ?i ?d empty_state))
      = First_page ''/app/outputs/a-8-pages/page-1.jpg''"
    using pdfToJpg_branches_refine_spec [OF d, of poppler_world ?i] n pc
    by (simp add: spec_pdf_to_image_def path_join_def digit_char_def)
  then have 2: "fst (pdfToJpg poppler_world ?i ?d empty_state)
      = Inr ''/app/outputs/a-8-pages/page-1.jpg''"
    by (rule outcome_of_First_page)
  from d l n 1 2 show ?thesis by simp
qed

text \<open>
  Claim C10.  Once the output directory is created, \<^verbatim>\<open>pdfToJpg\<close> fails with the
  message "not available on this system" exactly when the host is not Linux and the
  converter of the library is absent; in that case nothing outside the process was
  called, and the only change of the file system is the output directory.
\<close>

theorem pdfToJpg_not_available:
  assumes "\<not> is_file (files s) outputDir"
  shows "(fst (pdfToJpg w inputPath outputDir s)
            = Inl (Thrown (''PDF to JPG not available on this system. ''
                     @ ''Install poppler-utils (Linux) or use Windows/Mac.''))
          \<longleftrightarrow> \<not> isLinux w \<and> pdfConvertPoppler w = None)
       \<and> (\<not> isLinux w \<and> pdfConvertPoppler w = None \<longrightarrow>
            calls (snd (pdfToJpg w inputPath outputDir s)) = calls s
          \<and> files (snd (pdfToJpg w inputPath outputDir s)) = (files s)(outputDir \<mapsto> Dir))"
  using assms
  by (auto simp: pdfToJpg_def ensureDir_cases Let_def execFileAsync_def first_page_check_def
      log_call_def split: prod.splits option.splits)

theorem pdfToJpg_not_available_witness:
  "\<not> is_file Map.empty ''/app/outputs/a-8-pages''
   \<and> \<not> isLinux darwin_world \<and> pdfConvertPoppler darwin_world = None
   \<and> fst (pdfToJpg darwin_world ''/app/uploads/a-7.pdf'' ''/app/outputs/a-8-pages'' empty_state)
       = Inl (Thrown (''PDF to JPG not available on this system. ''
                @ ''Install poppler-utils (Linux) or use Windows/Mac.''))
   \<and> calls (snd (pdfToJpg darwin_world ''/app/uploads/a-7.pdf'' ''/app/outputs/a-8-pages''
         empty_state)) = []
   \<and> files (snd (pdfToJpg darwin_world ''/app/uploads/a-7.pdf'' ''/app/outputs/a-8-pages''
         empty_state)) = [''/app/outputs/a-8-pages'' \<mapsto> Dir]"
proof -
  have f: "\<not> is_file (files empty_state) ''/app/outputs/a-8-pages''"
    by (simp add: is_file_def empty_state_def)
  have w: "\<not> isLinux darwin_world \<and> pdfConvertPoppler darwin_world = None"
    by (simp add: isLinux_def darwin_world_def example_world_def)
  from pdfToJpg_not_available [OF f, of darwin_world "''/app/uploads/a-7.pdf''"] w f
  show ?thesis by (simp add: empty_state_def)
qed

section \<open>Retrying the port\<close>

text \<open>
  Claim C8 says that an occupied port is followed by the next port numbers.  The
  comment above \<^verbatim>\<open>start\<close> says the same, and it is what happens with the default port
  (lemma \<open>default_port_all_busy\<close>: 3000 to 3005, then exit).  But a port that is
  configured through the environment is a string, on which \<^verbatim>\<open>p + 1\<close> appends the
  character 1: with \<^verbatim>\<open>PORT=3000\<close> occupied the server listens on port 30001.
\<close>

theorem port_from_environment_is_concatenated:
  "PORT env_port_world = Str ''3000''
   \<and> start env_port_world Map.empty = Some (Serving, [Str ''3000'', Str ''30001''])"
proof -
  have l: "listen env_port_world (Str ''3000'') = Error_event ''EADDRINUSE''"
    "listen env_port_world (Str ''30001'') = Listening"
    by (simp_all add: env_port_world_def example_world_def)
  have c: "js_less (Str ''3000'') (js_plus (Str ''3000'') 5)"
    by (simp add: digit_char_def)
  have "tryListen env_port_world 5 (Str ''3000'') [] = Some (Resolved, [Str ''3000'', Str ''30001''])"
    apply (subst tryListen.simps)
    apply (simp add: l env_port c)
    apply (subst tryListen.simps)
    apply (simp add: l digit_char_def)
    done
  then show ?thesis
    by (simp add: start_def ensureDirs_def ensureDir_def env_port Let_def)
qed

section \<open>Names of scratch files\<close>

text \<open>
  Claim C9 says that the paths of two distinct requests are always distinct.  The
  suffix is the clock in milliseconds: two different uploads with the same original
  name that arrive in the same millisecond are stored under the same path, and the
  second replaces the file of the first.
\<close>

theorem same_millisecond_same_upload_path:
  "upload_single example_world
     \<lparr>file_field = Some (File_part ''a.pdf'' ''application/pdf'' ''one''),
      targetFormat_fields = [''jpg'']\<rparr> 7 empty_state
   = Inr (\<lparr>req_file = Some \<lparr>originalname = ''a.pdf'', mimetype = ''application/pdf'',
                            file_path = ''/app/uploads/a-7.pdf'', file_size = length ''one''\<rparr>,
           body_targetFormat = Text ''jpg''\<rparr>,
          \<lparr>files = [''/app/uploads/a-7.pdf'' \<mapsto> File ''one''], calls = []\<rparr>)
   \<and> upload_single example_world
     \<lparr>file_field = Some (File_part ''a.pdf'' ''application/pdf'' ''two''),
      targetFormat_fields = [''docx'']\<rparr> 7
     \<lparr>files = [''/app/uploads/a-7.pdf'' \<mapsto> File ''one''], calls = []\<rparr>
   = Inr (\<lparr>req_file = Some \<lparr>originalname = ''a.pdf'', mimetype = ''application/pdf'',
                            file_path = ''/app/uploads/a-7.pdf'', file_size = length ''two''\<rparr>,
           body_targetFormat = Text ''docx''\<rparr>,
          \<lparr>files = [''/app/uploads/a-7.pdf'' \<mapsto> File ''two''], calls = []\<rparr>)"
  by (simp add: upload_single_def fileFilter_def allowed_mimetypes_def fileSize_limit_def
      storage_filename_def UPLOADS_DIR_def example_world_def empty_state_def Let_def string_eval)

text \<open>
  Claim C9, amended: whenever the clock readings taken for two requests differ, their
  upload paths differ, every output path of the one (\<^verbatim>\<open>outBase\<close> followed by
  \<^verbatim>\<open>.pdf\<close>, \<^verbatim>\<open>-pages\<close> or \<^verbatim>\<open>-docx\<close>) differs from every output path of the
  other, and so do their temporary directories, whatever the original names are.
\<close>

theorem scratch_paths_distinct_by_clock:
  "(now1 \<noteq> now2 \<longrightarrow>
      path_join (UPLOADS_DIR w) (storage_filename name1 now1)
        \<noteq> path_join (UPLOADS_DIR w) (storage_filename name2 now2))
   \<and> (now1 \<noteq> now2 \<longrightarrow>
        (\<forall>x1 \<in> set [''.pdf'', ''-pages'', ''-docx''].
         \<forall>x2 \<in> set [''.pdf'', ''-pages'', ''-docx''].
           outBase_of w fl1 now1 @ x1 \<noteq> outBase_of w fl2 now2 @ x2))
   \<and> (now1 \<noteq> now2 \<longrightarrow> tempDir_of w now1 \<noteq> tempDir_of w now2)"
proof (intro conjI impI ballI)
  assume "now1 \<noteq> now2"
  then show "path_join (UPLOADS_DIR w) (storage_filename name1 now1)
      \<noteq> path_join (UPLOADS_DIR w) (storage_filename name2 now2)"
    using storage_filename_inj [of name1 now1 name2 now2] by (auto simp: path_join_def)
next
  fix x1 x2
  assume n: "now1 \<noteq> now2"
    and x1: "x1 \<in> set [''.pdf'', ''-pages'', ''-docx'']"
    and x2: "x2 \<in> set [''.pdf'', ''-pages'', ''-docx'']"
  show "outBase_of w fl1 now1 @ x1 \<noteq> outBase_of w fl2 now2 @ x2"
  proof
    assume e: "outBase_of w fl1 now1 @ x1 = outBase_of w fl2 now2 @ x2"
    then have "last (outBase_of w fl1 now1 @ x1) = last (outBase_of w fl2 now2 @ x2)"
      by (rule arg_cong)
    with x1 x2 have "x1 = x2"
      by (auto simp only: set_simps insert_iff empty_iff suffix_last)
    with e have "outBase_of w fl1 now1 = outBase_of w fl2 now2" by simp
    with n outBase_inj show False by blast
  qed
next
  assume "now1 \<noteq> now2"
  then show "tempDir_of w now1 \<noteq> tempDir_of w now2"
    using dec_inj [of now1 now2] by (auto simp: tempDir_of_def path_join_def)
qed

theorem scratch_paths_distinct_by_clock_witness:
  "(7 :: nat) \<noteq> 8
   \<and> path_join (UPLOADS_DIR example_world) (storage_filename ''a.pdf'' 7)
       \<noteq> path_join (UPLOADS_DIR example_world) (storage_filename ''a.pdf'' 8)
   \<and> outBase_of example_world
         \<lparr>originalname = ''a.pdf'', mimetype = ''application/pdf'',
          file_path = ''/app/uploads/a-7.pdf'', file_size = 3\<rparr> 7 @ ''.pdf''
       \<noteq> outBase_of example_world
         \<lparr>originalname = ''a.pdf'', mimetype = ''application/pdf'',
          file_path = ''/app/uploads/a-8.pdf'', file_size = 3\<rparr> 8 @ ''.pdf''
   \<and> tempDir_of example_world 7 \<noteq> tempDir_of example_world 8"
  using scratch_paths_distinct_by_clock [of 7 8 example_world "''a.pdf''" "''a.pdf''"
      "\<lparr>originalname = ''a.pdf'', mimetype = ''application/pdf'',
          file_path = ''/app/uploads/a-7.pdf'', file_size = 3\<rparr>"
      "\<lparr>originalname = ''a.pdf'', mimetype = ''application/pdf'',
          file_path = ''/app/uploads/a-8.pdf'', file_size = 3\<rparr>"]
  by simp

end
